theory Spec2Isabelle
  imports Main "HOL-Library.AList" "HOL-Library.Sublist"
begin

section \<open>JavaScript values\<close>

text \<open>
  A JavaScript string is the list of its UTF-16 code units. \<open>str\<close> turns an ASCII
  literal of this theory into such a string.
\<close>

type_synonym jsstring = "nat list"

definition str :: "string \<Rightarrow> jsstring" where
  "str s = map of_char s"

text \<open>
  A JavaScript number is \<open>NaN\<close> or an exact integer. Fractions, the infinities, negative
  zero and the rounding of doubles above \<open>2^53\<close> are outside this model.
\<close>

datatype number = NaN | Num int

definition isNaN :: "number \<Rightarrow> bool" where
  "isNaN n = (n = NaN)"

text \<open>Plain data values, as \<open>JSON.parse\<close> and the remote bridge deliver them. An object is
  the list of its own properties; a property read takes the first entry of a name.\<close>

datatype jsval =
    JUndefined
  | JNull
  | JBool bool
  | JNum number
  | JStr jsstring
  | JArr "jsval list"
  | JObj "(jsstring \<times> jsval) list"

type_synonym object = "(jsstring \<times> jsval) list"

fun typeof :: "jsval \<Rightarrow> string" where
  "typeof JUndefined = ''undefined''"
| "typeof JNull = ''object''"
| "typeof (JBool b) = ''boolean''"
| "typeof (JNum n) = ''number''"
| "typeof (JStr s) = ''string''"
| "typeof (JArr xs) = ''object''"
| "typeof (JObj ps) = ''object''"

fun Array_isArray :: "jsval \<Rightarrow> bool" where
  "Array_isArray (JArr xs) = True"
| "Array_isArray v = False"

text \<open>\<open>raw.k\<close> on a value already known to be an object (or on any value that is not
  \<open>null\<close> or \<open>undefined\<close>): the property, or \<open>undefined\<close> when there is none. None of the
  names this program reads (\<open>data\<close>, \<open>user_id\<close>, \<open>vip\<close> and the configuration fields) is a
  property of a string, a number, a boolean or an array.\<close>

fun readProp :: "jsval \<Rightarrow> string \<Rightarrow> jsval" where
  "readProp (JObj ps) k = (case map_of ps (str k) of None \<Rightarrow> JUndefined | Some v \<Rightarrow> v)"
| "readProp v k = JUndefined"

text \<open>\<open>out.k = v\<close>: replaces the property in place, or appends it.\<close>

definition assign :: "string \<Rightarrow> jsval \<Rightarrow> object \<Rightarrow> object" where
  "assign k v out = AList.update (str k) v out"

text \<open>Truthiness, as \<open>if (v)\<close>, \<open>!v\<close> and \<open>v || d\<close> test it.\<close>

fun truthy_num :: "number \<Rightarrow> bool" where
  "truthy_num NaN = False"
| "truthy_num (Num n) = (n \<noteq> 0)"

fun truthy :: "jsval \<Rightarrow> bool" where
  "truthy JUndefined = False"
| "truthy JNull = False"
| "truthy (JBool b) = b"
| "truthy (JNum n) = truthy_num n"
| "truthy (JStr s) = (s \<noteq> [])"
| "truthy (JArr xs) = True"
| "truthy (JObj ps) = True"

subsection \<open>Strings: \<open>trim\<close>, \<open>split\<close>, \<open>parseInt\<close>, \<open>String\<close>\<close>

text \<open>White space and line terminators of ECMAScript, as code units.\<close>

definition isWhiteSpace :: "nat \<Rightarrow> bool" where
  "isWhiteSpace c =
     (c \<in> set [9, 10, 11, 12, 13, 32, 160, 5760, 8232, 8233, 8239, 8287, 12288, 65279]
      \<or> (8192 \<le> c \<and> c \<le> 8202))"

definition trim :: "jsstring \<Rightarrow> jsstring" where
  "trim s = rev (dropWhile isWhiteSpace (rev (dropWhile isWhiteSpace s)))"

text \<open>\<open>s.split(sep)\<close> for a separator of one code unit: the empty string gives one empty
  token.\<close>

fun split_js :: "nat \<Rightarrow> jsstring \<Rightarrow> jsstring list" where
  "split_js sep [] = [[]]"
| "split_js sep (c # cs) =
     (if c = sep then [] # split_js sep cs
      else (case split_js sep cs of
              [] \<Rightarrow> [[c]]
            | t # ts \<Rightarrow> (c # t) # ts))"

text \<open>The value of a code unit as a digit: \<open>0-9\<close>, then \<open>a-z\<close> or \<open>A-Z\<close> for ten to
  thirty-five.\<close>

definition digitVal :: "nat \<Rightarrow> nat option" where
  "digitVal c =
     (if 48 \<le> c \<and> c \<le> 57 then Some (c - 48)
      else if 97 \<le> c \<and> c \<le> 122 then Some (c - 87)
      else if 65 \<le> c \<and> c \<le> 90 then Some (c - 55)
      else None)"

definition isRadixDigit :: "nat \<Rightarrow> nat \<Rightarrow> bool" where
  "isRadixDigit R c = (case digitVal c of None \<Rightarrow> False | Some d \<Rightarrow> d < R)"

definition digitsValue :: "nat \<Rightarrow> jsstring \<Rightarrow> int" where
  "digitsValue R Z = foldl (\<lambda>acc c. acc * int R + (case digitVal c of None \<Rightarrow> 0 | Some d \<Rightarrow> int d)) 0 Z"

text \<open>\<open>parseInt(s, R)\<close>, with \<open>R = 0\<close> for a call without radix: leading white space is
  skipped, then a sign, then (radix absent or sixteen) a \<open>0x\<close> prefix; the longest run of
  digits of the radix is the value, and no digit at all gives \<open>NaN\<close>.\<close>

definition parseInt :: "jsstring \<Rightarrow> nat \<Rightarrow> number" where
  "parseInt s R =
     (let S = dropWhile isWhiteSpace s;
          neg = (case S of c # _ \<Rightarrow> c = 45 | [] \<Rightarrow> False);
          S1 = (case S of c # cs \<Rightarrow> if c = 43 \<or> c = 45 then cs else S | [] \<Rightarrow> S)
      in if R \<noteq> 0 \<and> (R < 2 \<or> 36 < R) then NaN
         else
           let stripPrefix = (R = 0 \<or> R = 16);
               R1 = (if R = 0 then 10 else R);
               hex = (stripPrefix \<and> (take 2 S1 = [48, 120] \<or> take 2 S1 = [48, 88]));
               R2 = (if hex then 16 else R1);
               S2 = (if hex then drop 2 S1 else S1);
               Z = takeWhile (isRadixDigit R2) S2
           in if Z = [] then NaN
              else Num ((if neg then - 1 else 1) * digitsValue R2 Z))"

text \<open>\<open>String(n)\<close> for a number: decimal digits with a minus sign. (Above \<open>10^21\<close>
  JavaScript prints an exponent; identifiers are far below.)\<close>

fun digits :: "nat \<Rightarrow> jsstring" where
  "digits n = (if n < 10 then [48 + n] else digits (n div 10) @ [48 + n mod 10])"

declare digits.simps [simp del]

fun String_num :: "number \<Rightarrow> jsstring" where
  "String_num NaN = str ''NaN''"
| "String_num (Num n) = (if n < 0 then 45 # digits (nat (- n)) else digits (nat n))"

text \<open>\<open>String(v)\<close> for any value; an array joins its elements with commas, \<open>null\<close> and
  \<open>undefined\<close> elements being empty.\<close>

fun join_js :: "jsstring list \<Rightarrow> jsstring" where
  "join_js [] = []"
| "join_js [t] = t"
| "join_js (t # ts) = t @ [44] @ join_js ts"

fun String_js :: "jsval \<Rightarrow> jsstring" where
  "String_js JUndefined = str ''undefined''"
| "String_js JNull = str ''null''"
| "String_js (JBool b) = (if b then str ''true'' else str ''false'')"
| "String_js (JNum n) = String_num n"
| "String_js (JStr s) = s"
| "String_js (JArr xs) =
     join_js (map (\<lambda>x. if x = JUndefined \<or> x = JNull then [] else String_js x) xs)"
| "String_js (JObj ps) = str ''[object Object]''"

text \<open>\<open>s.includes(t)\<close>: \<open>t\<close> occurs in \<open>s\<close> as a contiguous run.\<close>

definition includes_js :: "jsstring \<Rightarrow> jsstring \<Rightarrow> bool" where
  "includes_js s t = sublist t s"

section \<open>Configuration cleaning\<close>

definition isObject :: "jsval \<Rightarrow> bool" where
  "isObject v = (v \<noteq> JNull \<and> typeof v = ''object'' \<and> \<not> Array_isArray v)"

text \<open>\<^verbatim>\<open>if (typeof raw.k === ty) out.k = raw.k;\<close>\<close>

definition copyIfType :: "string \<Rightarrow> string \<Rightarrow> jsval \<Rightarrow> object \<Rightarrow> object" where
  "copyIfType ty k raw out =
     (if typeof (readProp raw k) = ty then assign k (readProp raw k) out else out)"

text \<open>The two list fields: an array keeps its elements of type number; a string is split at
  commas, each token trimmed and parsed in radix ten, and the tokens that parse to \<open>NaN\<close>
  are dropped; anything else leaves the default.\<close>

definition idsOfString :: "jsstring \<Rightarrow> jsval" where
  "idsOfString s =
     JArr (map JNum (filter (\<lambda>n. \<not> isNaN n) (map (\<lambda>t. parseInt (trim t) 10) (split_js 44 s))))"

definition copyIdList :: "string \<Rightarrow> jsval \<Rightarrow> object \<Rightarrow> object" where
  "copyIdList k raw out =
     (case readProp raw k of
        JArr xs \<Rightarrow> assign k (JArr (filter (\<lambda>id. typeof id = ''number'') xs)) out
      | JStr s \<Rightarrow> assign k (idsOfString s) out
      | _ \<Rightarrow> out)"

text \<open>\<open>DEFAULT_CONFIG\<close> lives in a module that is not part of the sources at hand, so it
  is a parameter. TypeScript's types are erased at run time: \<open>out\<close> is an object whose
  properties hold whatever was assigned.\<close>

definition sanitizeConfig :: "object \<Rightarrow> jsval \<Rightarrow> object" where
  "sanitizeConfig DEFAULT_CONFIG raw =
     (if \<not> isObject raw then DEFAULT_CONFIG
      else
        let out = DEFAULT_CONFIG;
            out = copyIfType ''boolean'' ''enabled'' raw out;
            out = copyIfType ''boolean'' ''debug'' raw out;
            out = copyIfType ''boolean'' ''autoLikeEnabled'' raw out;
            out = copyIfType ''number'' ''vipLikeLimit'' raw out;
            out = copyIdList ''blacklist'' raw out;
            out = copyIfType ''boolean'' ''autoLikeSomeoneEnabled'' raw out;
            out = copyIfType ''number'' ''autoLikeInterval'' raw out;
            out = copyIfType ''number'' ''autoLikeTimes'' raw out;
            out = copyIdList ''autoLikeUsers'' raw out
        in out)"

text \<open>The declared types of the nine configuration fields.\<close>

fun isNumberArray :: "jsval \<Rightarrow> bool" where
  "isNumberArray (JArr xs) = (\<forall>x \<in> set xs. typeof x = ''number'')"
| "isNumberArray v = False"

definition hasDeclaredTypes :: "object \<Rightarrow> bool" where
  "hasDeclaredTypes c \<longleftrightarrow>
     typeof (readProp (JObj c) ''enabled'') = ''boolean'' \<and>
     typeof (readProp (JObj c) ''debug'') = ''boolean'' \<and>
     typeof (readProp (JObj c) ''autoLikeEnabled'') = ''boolean'' \<and>
     typeof (readProp (JObj c) ''vipLikeLimit'') = ''number'' \<and>
     isNumberArray (readProp (JObj c) ''blacklist'') \<and>
     typeof (readProp (JObj c) ''autoLikeSomeoneEnabled'') = ''boolean'' \<and>
     typeof (readProp (JObj c) ''autoLikeInterval'') = ''number'' \<and>
     typeof (readProp (JObj c) ''autoLikeTimes'') = ''number'' \<and>
     isNumberArray (readProp (JObj c) ''autoLikeUsers'')"


section \<open>The state store\<close>

subsection \<open>Errors, events and the environment\<close>

text \<open>A thrown value is an \<open>Error\<close> object with its message, or a \<open>TypeError\<close> of the
  engine (a property read on \<open>null\<close> or \<open>undefined\<close>, a call of something that is no
  function). The remote bridge rejects with an \<open>Error\<close>.\<close>

datatype error = Error jsstring | TypeError

text \<open>The error of the \<open>ctx\<close> getter; its message is the source's text, in code units.\<close>

definition Uninitialized :: error where
  "Uninitialized =
     Error [80, 108, 117, 103, 105, 110, 83, 116, 97, 116, 101, 32, 23578, 26410, 21021, 22987,
            21270, 65292, 35831, 20808, 35843, 29992, 32, 105, 110, 105, 116, 40, 41]"

record Context =
  configPath :: jsstring
  dataPath :: jsstring

text \<open>Inside the store the configuration has its declared types.\<close>

record PluginConfig =
  enabled :: bool
  debug :: bool
  autoLikeEnabled :: bool
  blacklist :: "number list"
  vipLikeLimit :: number
  autoLikeSomeoneEnabled :: bool
  autoLikeInterval :: number
  autoLikeTimes :: number
  autoLikeUsers :: "number list"

record Stats =
  processed :: number
  todayProcessed :: number
  lastUpdateDay :: jsstring

text \<open>The fields of the class \<open>PluginState\<close>; \<open>priv_ctx\<close> is the private \<open>_ctx\<close>, \<open>None\<close>
  for \<open>null\<close>. A timer is its handle. (\<open>startTime\<close>, which only the uptime getters read, is
  left out.)\<close>

record PluginState =
  priv_ctx :: "Context option"
  config :: PluginConfig
  selfId :: jsstring
  timers :: "(jsstring \<times> nat) list"
  stats :: Stats
  vipLikeCounts :: "number \<rightharpoonup> number"
  lastVipLikeResetDay :: jsstring

text \<open>What the program does to the outside is a trace of events. A log entry keeps its
  level, not its text; a written file keeps the data that was serialised.

  An \<open>async\<close> function is run from its call to its end: each \<open>await\<close> takes the answer of
  the outside and goes on, a rejection being the \<open>throw\<close> it becomes. Other tasks that the
  event loop could run at an \<open>await\<close> are not part of this model.\<close>

datatype level = LDebug | LInfo | LWarn | LError

datatype filedata = VipLikes "number \<rightharpoonup> number" | ConfigFile PluginConfig Stats

datatype event =
    Call jsstring jsval
  | Log level
  | Sleep nat
  | WriteFile jsstring filedata
  | ClearInterval nat

text \<open>The outside answers: the remote bridge resolves (\<open>Inr\<close>) or rejects with an \<open>Error\<close>
  of some message (\<open>Inl\<close>), given everything that happened before; the \<open>n\<close>-th reading of
  \<open>new Date().toDateString()\<close>; whether a write to a path throws.\<close>

record env =
  remote :: "event list \<Rightarrow> jsstring \<Rightarrow> jsval \<Rightarrow> jsstring + jsval"
  clock :: "nat \<Rightarrow> jsstring"
  writeFails :: "event list \<Rightarrow> jsstring \<Rightarrow> bool"

record world =
  trace :: "event list"
  clockReads :: nat

definition emit :: "event \<Rightarrow> world \<Rightarrow> world" where
  "emit e w = w\<lparr>trace := trace w @ [e]\<rparr>"

definition Date_toDateString :: "env \<Rightarrow> world \<Rightarrow> jsstring \<times> world" where
  "Date_toDateString E w = (clock E (clockReads w), w\<lparr>clockReads := Suc (clockReads w)\<rparr>)"

text \<open>The remote calls in a trace, in order.\<close>

fun calls :: "event list \<Rightarrow> (jsstring \<times> jsval) list" where
  "calls [] = []"
| "calls (Call a p # es) = (a, p) # calls es"
| "calls (e # es) = calls es"

subsection \<open>Numbers in counters\<close>

text \<open>\<open>x || 0\<close> on a counter that may be missing, \<open>x + 1\<close> (also \<open>x++\<close>), \<open>a >= b\<close>,
  \<open>a === b\<close> and \<open>a !== b\<close>.\<close>

fun num_or0 :: "number option \<Rightarrow> number" where
  "num_or0 None = Num 0"
| "num_or0 (Some n) = (if truthy_num n then n else Num 0)"

fun num_inc :: "number \<Rightarrow> number" where
  "num_inc NaN = NaN"
| "num_inc (Num n) = Num (n + 1)"

fun num_ge :: "number \<Rightarrow> number \<Rightarrow> bool" where
  "num_ge (Num a) (Num b) = (b \<le> a)"
| "num_ge a b = False"

definition strictEq :: "number \<Rightarrow> number \<Rightarrow> bool" where
  "strictEq a b = (a \<noteq> NaN \<and> b \<noteq> NaN \<and> a = b)"

definition strictNeq :: "number \<Rightarrow> number \<Rightarrow> bool" where
  "strictNeq a b = (\<not> strictEq a b)"

subsection \<open>Context, logger, files\<close>

definition ctx :: "PluginState \<Rightarrow> error + Context" where
  "ctx s = (case priv_ctx s of None \<Rightarrow> Inl Uninitialized | Some c \<Rightarrow> Inr c)"

text \<open>\<open>this.logger.info(...)\<close> and its siblings go through the \<open>ctx\<close> getter.\<close>

definition logger :: "level \<Rightarrow> PluginState \<Rightarrow> world \<Rightarrow> (error + unit) \<times> world" where
  "logger lvl s w =
     (case ctx s of
        Inl e \<Rightarrow> (Inl e, w)
      | Inr c \<Rightarrow> (Inr (), emit (Log lvl) w))"

text \<open>\<open>path.join\<close> of a directory and a plain file name.\<close>

definition path_join :: "jsstring \<Rightarrow> jsstring \<Rightarrow> jsstring" where
  "path_join dir filename = dir @ [47] @ filename"

definition getDataFilePath :: "jsstring \<Rightarrow> PluginState \<Rightarrow> error + jsstring" where
  "getDataFilePath filename s =
     (case ctx s of
        Inl e \<Rightarrow> Inl e
      | Inr c \<Rightarrow> Inr (path_join (dataPath c) filename))"

definition saveDataFile ::
  "env \<Rightarrow> jsstring \<Rightarrow> filedata \<Rightarrow> PluginState \<Rightarrow> world \<Rightarrow> (error + unit) \<times> world" where
  "saveDataFile E filename data s w =
     (case getDataFilePath filename s of
        Inl e \<Rightarrow> (Inl e, w)
      | Inr filePath \<Rightarrow>
          if writeFails E (trace w) filePath then logger LError s w
          else (Inr (), emit (WriteFile filePath data) w))"

text \<open>\<open>saveConfig\<close> reads \<open>_ctx\<close> itself and returns at once when there is none; with
  one, it writes the configuration and the statistics (creating the directory first when
  it is missing), and logs when any of that throws. It never throws.\<close>

definition saveConfig :: "env \<Rightarrow> PluginState \<Rightarrow> world \<Rightarrow> (error + unit) \<times> world" where
  "saveConfig E s w =
     (case priv_ctx s of
        None \<Rightarrow> (Inr (), w)
      | Some c \<Rightarrow>
          if writeFails E (trace w) (configPath c) then (Inr (), emit (Log LError) w)
          else (Inr (), emit (WriteFile (configPath c) (ConfigFile (config s) (stats s))) w))"

subsection \<open>Counters\<close>

definition incrementProcessed :: "env \<Rightarrow> PluginState \<Rightarrow> world \<Rightarrow> PluginState \<times> world" where
  "incrementProcessed E s w =
     (let (today, w1) = Date_toDateString E w;
          st = stats s;
          st = (if lastUpdateDay st \<noteq> today
                then st\<lparr>todayProcessed := Num 0, lastUpdateDay := today\<rparr>
                else st);
          st = st\<lparr>todayProcessed := num_inc (todayProcessed st)\<rparr>;
          st = st\<lparr>processed := num_inc (processed st)\<rparr>
      in (s\<lparr>stats := st\<rparr>, w1))"

definition vip_likes_json :: jsstring where
  "vip_likes_json = str ''vip_likes.json''"

definition checkVipLikeReset ::
  "env \<Rightarrow> PluginState \<Rightarrow> world \<Rightarrow> (error + unit) \<times> PluginState \<times> world" where
  "checkVipLikeReset E s w =
     (let (today, w1) = Date_toDateString E w
      in if lastVipLikeResetDay s \<noteq> today
         then
           let s1 = s\<lparr>vipLikeCounts := Map.empty, lastVipLikeResetDay := today\<rparr>;
               (r, w2) = saveDataFile E vip_likes_json (VipLikes (vipLikeCounts s1)) s1 w1
           in (r, s1, w2)
         else (Inr (), s, w1))"

definition getVipLikeCount ::
  "env \<Rightarrow> number \<Rightarrow> PluginState \<Rightarrow> world \<Rightarrow> (error + number) \<times> PluginState \<times> world" where
  "getVipLikeCount E userId s w =
     (case checkVipLikeReset E s w of
        (Inl e, s1, w1) \<Rightarrow> (Inl e, s1, w1)
      | (Inr u, s1, w1) \<Rightarrow> (Inr (num_or0 (vipLikeCounts s1 userId)), s1, w1))"

definition incrementVipLikeCount ::
  "env \<Rightarrow> number \<Rightarrow> PluginState \<Rightarrow> world \<Rightarrow> (error + unit) \<times> PluginState \<times> world" where
  "incrementVipLikeCount E userId s w =
     (case checkVipLikeReset E s w of
        (Inl e, s1, w1) \<Rightarrow> (Inl e, s1, w1)
      | (Inr u, s1, w1) \<Rightarrow>
          let s2 = s1\<lparr>vipLikeCounts :=
                       (vipLikeCounts s1)(userId \<mapsto> num_inc (num_or0 (vipLikeCounts s1 userId)))\<rparr>;
              (r, w2) = saveDataFile E vip_likes_json (VipLikes (vipLikeCounts s2)) s2 w1
          in (r, s2, w2))"

subsection \<open>Remote calls\<close>

definition callApi ::
  "env \<Rightarrow> jsstring \<Rightarrow> jsval \<Rightarrow> PluginState \<Rightarrow> world \<Rightarrow> (error + jsval) \<times> world" where
  "callApi E action params s w =
     (case ctx s of
        Inl e \<Rightarrow> (Inl e, w)
      | Inr c \<Rightarrow>
          (case remote E (trace w) action params of
             Inl msg \<Rightarrow> (Inl (Error msg), emit (Call action params) w)
           | Inr res \<Rightarrow> (Inr res, emit (Call action params) w)))"


subsection \<open>The bot's own identifier\<close>

text \<open>\<open>fetchSelfId\<close>: the identifier is stored only when the call resolves with a truthy
  \<open>user_id\<close>; a rejection is logged as a warning.\<close>

definition fetchSelfId ::
  "env \<Rightarrow> PluginState \<Rightarrow> world \<Rightarrow> (error + unit) \<times> PluginState \<times> world" where
  "fetchSelfId E s w =
     (case callApi E (str ''get_login_info'') (JObj []) s w of
        (Inl e, w1) \<Rightarrow> (case logger LWarn s w1 of (r, w2) \<Rightarrow> (r, s, w2))
      | (Inr res, w1) \<Rightarrow>
          let uid = (if res = JUndefined \<or> res = JNull then JUndefined
                     else readProp res ''user_id'')
          in if truthy uid
             then
               let s1 = s\<lparr>selfId := String_js uid\<rparr>
               in (case logger LDebug s1 w1 of
                     (Inl e, w2) \<Rightarrow> (case logger LWarn s1 w2 of (r, w3) \<Rightarrow> (r, s1, w3))
                   | (Inr u, w2) \<Rightarrow> (Inr (), s1, w2))
             else (Inr (), s, w1))"

subsection \<open>The proactive-like pass\<close>

text \<open>The \<open>catch\<close> block of the loop body. \<open>errMsg\<close> is \<open>error?.message || String(error)\<close>:
  the message of an \<open>Error\<close>, or \<open>Error\<close> itself when the message is empty. A logger that
  throws here ends the pass.\<close>

definition errMsg :: "jsstring \<Rightarrow> jsstring" where
  "errMsg message = (if message \<noteq> [] then message else str ''Error'')"

definition autoLikeCatch ::
  "env \<Rightarrow> error \<Rightarrow> PluginState \<Rightarrow> world \<Rightarrow> (error + unit) \<times> PluginState \<times> world" where
  "autoLikeCatch E error s w =
     (case error of
        Error message \<Rightarrow>
          if includes_js (errMsg message) (str ''No data returned'')
          then (case logger LInfo s w of
                  (Inl e, w1) \<Rightarrow> (Inl e, s, w1)
                | (Inr u, w1) \<Rightarrow>
                    let (s2, w2) = incrementProcessed E s w1 in (Inr (), s2, w2))
          else (case logger LError s w of (r, w1) \<Rightarrow> (r, s, w1))
      | TypeError \<Rightarrow> (case logger LError s w of (r, w1) \<Rightarrow> (r, s, w1)))"

text \<open>One turn of the loop: the \<open>try\<close> block, then the \<open>catch\<close> block.\<close>

definition autoLikeOne ::
  "env \<Rightarrow> number \<Rightarrow> number \<Rightarrow> PluginState \<Rightarrow> world \<Rightarrow> (error + unit) \<times> PluginState \<times> world" where
  "autoLikeOne E times' userId s w =
     (case callApi E (str ''send_like'')
             (JObj [(str ''user_id'', JStr (String_num userId)), (str ''times'', JNum times')]) s w of
        (Inl error, w1) \<Rightarrow> autoLikeCatch E error s w1
      | (Inr res, w1) \<Rightarrow>
          (case logger LInfo s w1 of
             (Inl error, w2) \<Rightarrow> autoLikeCatch E error s w2
           | (Inr u, w2) \<Rightarrow>
               let (s3, w3) = incrementProcessed E s w2
               in (Inr (), s3, emit (Sleep 1000) w3)))"

fun autoLikeLoop ::
  "env \<Rightarrow> number \<Rightarrow> number list \<Rightarrow> PluginState \<Rightarrow> world \<Rightarrow> (error + unit) \<times> PluginState \<times> world" where
  "autoLikeLoop E times' [] s w = (Inr (), s, w)"
| "autoLikeLoop E times' (userId # rest) s w =
     (case autoLikeOne E times' userId s w of
        (Inl e, s1, w1) \<Rightarrow> (Inl e, s1, w1)
      | (Inr u, s1, w1) \<Rightarrow> autoLikeLoop E times' rest s1 w1)"

definition executeAutoLike ::
  "env \<Rightarrow> PluginState \<Rightarrow> world \<Rightarrow> (error + unit) \<times> PluginState \<times> world" where
  "executeAutoLike E s w =
     (if \<not> autoLikeSomeoneEnabled (config s) \<or> length (autoLikeUsers (config s)) = 0
      then (Inr (), s, w)
      else autoLikeLoop E (autoLikeTimes (config s)) (autoLikeUsers (config s)) s w)"

subsection \<open>Shutdown\<close>

fun clearTimers ::
  "(jsstring \<times> nat) list \<Rightarrow> PluginState \<Rightarrow> world \<Rightarrow> (error + unit) \<times> world" where
  "clearTimers [] s w = (Inr (), w)"
| "clearTimers ((jobId, timer) # rest) s w =
     (case logger LDebug s (emit (ClearInterval timer) w) of
        (Inl e, w1) \<Rightarrow> (Inl e, w1)
      | (Inr u, w1) \<Rightarrow> clearTimers rest s w1)"

definition cleanup :: "env \<Rightarrow> PluginState \<Rightarrow> world \<Rightarrow> (error + unit) \<times> PluginState \<times> world" where
  "cleanup E s w =
     (case clearTimers (timers s) s w of
        (Inl e, w1) \<Rightarrow> (Inl e, s, w1)
      | (Inr u, w1) \<Rightarrow>
          let s1 = s\<lparr>timers := []\<rparr>;
              (r, w2) = saveConfig E s1 w1
          in (case saveDataFile E vip_likes_json (VipLikes (vipLikeCounts s1)) s1 w2 of
                (Inl e, w3) \<Rightarrow> (Inl e, s1, w3)
              | (Inr u, w3) \<Rightarrow> (Inr (), s1\<lparr>priv_ctx := None\<rparr>, w3)))"

section \<open>The gesture handler\<close>

text \<open>The two shapes of \<open>LikeEvent\<close> in one record; a field a shape does not carry is
  \<open>None\<close>. (\<open>count\<close> only feeds the text of log messages.)\<close>

record LikeEvent =
  notice_type :: jsstring
  sub_type :: "jsstring option"
  target_id :: number
  user_id :: number
  group_id :: "number option"
  count :: "number option"

text \<open>\<open>event.group_id\<close> as a value; \<open>if (event.group_id)\<close> tests it for truthiness, so
  that an event carries a group id when the field is a number other than \<open>0\<close> and \<open>NaN\<close>.\<close>

definition eventGroupId :: "LikeEvent \<Rightarrow> jsval" where
  "eventGroupId event = (case group_id event of None \<Rightarrow> JUndefined | Some g \<Rightarrow> JNum g)"

text \<open>\<open>v.k\<close> on any value: \<open>null\<close> and \<open>undefined\<close> have no properties.\<close>

definition getProp :: "jsval \<Rightarrow> string \<Rightarrow> error + jsval" where
  "getProp v k =
     (if v = JUndefined \<or> v = JNull then Inl TypeError else Inr (readProp v k))"

text \<open>\<open>friendList.data.some(friend => friend.user_id === user_id)\<close>; only an array has
  \<open>some\<close>.\<close>

fun someFriend :: "number \<Rightarrow> jsval list \<Rightarrow> error + bool" where
  "someFriend userId [] = Inr False"
| "someFriend userId (friend # rest) =
     (case getProp friend ''user_id'' of
        Inl e \<Rightarrow> Inl e
      | Inr v \<Rightarrow>
          if (case v of JNum n \<Rightarrow> strictEq n userId | _ \<Rightarrow> False) then Inr True
          else someFriend userId rest)"

definition isFriend :: "jsval \<Rightarrow> number \<Rightarrow> error + bool" where
  "isFriend friendList userId =
     (case getProp friendList ''data'' of
        Inl e \<Rightarrow> Inl e
      | Inr d \<Rightarrow> (case d of JArr friends \<Rightarrow> someFriend userId friends | _ \<Rightarrow> Inl TypeError))"

text \<open>\<open>userInfo.data.vip || false\<close>, as the following \<open>if\<close> reads it.\<close>

definition isVip :: "jsval \<Rightarrow> error + bool" where
  "isVip userInfo =
     (case getProp userInfo ''data'' of
        Inl e \<Rightarrow> Inl e
      | Inr d \<Rightarrow> (case getProp d ''vip'' of Inl e \<Rightarrow> Inl e | Inr v \<Rightarrow> Inr (truthy v)))"

text \<open>The first \<open>try\<close> block: \<open>True\<close> when the handler goes on.\<close>

definition checkFriend :: "env \<Rightarrow> number \<Rightarrow> PluginState \<Rightarrow> world \<Rightarrow> bool \<times> world" where
  "checkFriend E userId s w =
     (case callApi E (str ''get_friend_list'') (JObj []) s w of
        (Inl e, w1) \<Rightarrow> (False, emit (Log LError) w1)
      | (Inr friendList, w1) \<Rightarrow>
          (case isFriend friendList userId of
             Inl e \<Rightarrow> (False, emit (Log LError) w1)
           | Inr b \<Rightarrow> if \<not> b then (False, emit (Log LInfo) w1) else (True, w1)))"

text \<open>The second \<open>try\<close> block: \<open>False\<close> only when a member has reached the limit; every
  throw is caught, logged as a warning, and the handler goes on.\<close>

definition checkVipLimit ::
  "env \<Rightarrow> number \<Rightarrow> PluginState \<Rightarrow> world \<Rightarrow> bool \<times> PluginState \<times> world" where
  "checkVipLimit E userId s w =
     (case callApi E (str ''get_stranger_info'') (JObj [(str ''user_id'', JNum userId)]) s w of
        (Inl e, w1) \<Rightarrow> (True, s, emit (Log LWarn) w1)
      | (Inr userInfo, w1) \<Rightarrow>
          (case isVip userInfo of
             Inl e \<Rightarrow> (True, s, emit (Log LWarn) w1)
           | Inr vip \<Rightarrow>
               if vip then
                 (case getVipLikeCount E userId s w1 of
                    (Inl e, s2, w2) \<Rightarrow> (True, s2, emit (Log LWarn) w2)
                  | (Inr currentLikes, s2, w2) \<Rightarrow>
                      if num_ge currentLikes (vipLikeLimit (config s2))
                      then (False, s2, emit (Log LInfo) w2)
                      else (True, s2, w2))
               else (True, s, w1)))"

text \<open>The third \<open>try\<close> block. A poke call that resolves is followed by its log line.\<close>

definition pokeBack ::
  "env \<Rightarrow> jsstring \<Rightarrow> jsval \<Rightarrow> PluginState \<Rightarrow> world \<Rightarrow> (error + unit) \<times> world" where
  "pokeBack E action params s w =
     (case callApi E action params s w of
        (Inl e, w1) \<Rightarrow> (Inl e, w1)
      | (Inr res, w1) \<Rightarrow> (Inr (), emit (Log LInfo) w1))"

definition reciprocate :: "env \<Rightarrow> LikeEvent \<Rightarrow> PluginState \<Rightarrow> world \<Rightarrow> PluginState \<times> world" where
  "reciprocate E event s w =
     (let (r, w1) =
            (if notice_type event = str ''thumb_up''
             then pokeBack E (str ''friend_poke'') (JObj [(str ''user_id'', JNum (user_id event))]) s w
             else if sub_type event = Some (str ''poke'')
             then (if truthy (eventGroupId event)
                   then pokeBack E (str ''group_poke'')
                          (JObj [(str ''group_id'', eventGroupId event),
                                 (str ''user_id'', JNum (user_id event))]) s w
                   else pokeBack E (str ''friend_poke'')
                          (JObj [(str ''user_id'', JNum (user_id event))]) s w)
             else (Inr (), w))
      in case r of
           Inl e \<Rightarrow> (s, emit (Log LError) w1)
         | Inr u \<Rightarrow>
             (case incrementVipLikeCount E (user_id event) s w1 of
                (Inl e, s2, w2) \<Rightarrow> (s2, emit (Log LError) w2)
              | (Inr u, s2, w2) \<Rightarrow> (s2, w2)))"

definition handleLike :: "env \<Rightarrow> LikeEvent \<Rightarrow> PluginState \<Rightarrow> world \<Rightarrow> PluginState \<times> world" where
  "handleLike E event s w =
     (let isLikeOrPoke =
            (notice_type event = str ''thumb_up'' \<or>
             (notice_type event = str ''notify'' \<and> sub_type event = Some (str ''poke'')))
      in if \<not> isLikeOrPoke then (s, w)
         else if strictNeq (target_id event) (parseInt (selfId s) 0) then (s, w)
         else if \<not> autoLikeEnabled (config s) then (s, w)
         else
           let w0 = emit (Log LInfo) w
           in if user_id event \<in> set (blacklist (config s)) then (s, emit (Log LInfo) w0)
              else
                (case checkFriend E (user_id event) s w0 of
                   (False, w1) \<Rightarrow> (s, w1)
                 | (True, w1) \<Rightarrow>
                     (case checkVipLimit E (user_id event) s w1 of
                        (False, s2, w2) \<Rightarrow> (s2, w2)
                      | (True, s2, w2) \<Rightarrow> reciprocate E event s2 w2)))"


section \<open>Concrete inputs\<close>

text \<open>The names of the nine configuration fields.\<close>

definition configKeys :: "string list" where
  "configKeys = [''enabled'', ''debug'', ''autoLikeEnabled'', ''vipLikeLimit'', ''blacklist'',
     ''autoLikeSomeoneEnabled'', ''autoLikeInterval'', ''autoLikeTimes'', ''autoLikeUsers'']"

text \<open>A default configuration with the declared types, and a raw value as a settings page
  or a hand-edited file may deliver it.\<close>

definition exampleDefaults :: object where
  "exampleDefaults =
     [(str ''enabled'', JBool True), (str ''debug'', JBool False),
      (str ''autoLikeEnabled'', JBool True), (str ''blacklist'', JArr []),
      (str ''vipLikeLimit'', JNum (Num 10)), (str ''autoLikeSomeoneEnabled'', JBool False),
      (str ''autoLikeInterval'', JNum (Num 60)), (str ''autoLikeTimes'', JNum (Num 10)),
      (str ''autoLikeUsers'', JArr [])]"

definition exampleRaw :: jsval where
  "exampleRaw =
     JObj [(str ''debug'', JBool True), (str ''vipLikeLimit'', JStr (str ''7'')),
           (str ''blacklist'', JStr (str ''1, 2,x'')),
           (str ''autoLikeUsers'', JArr [JNum (Num 5), JStr (str ''a''), JNull]),
           (str ''extra'', JNum (Num 1))]"

text \<open>The fields of a \<open>PluginState\<close> as the class initialises them, given the default
  configuration and the day of construction.\<close>

definition newPluginState :: "PluginConfig \<Rightarrow> jsstring \<Rightarrow> PluginState" where
  "newPluginState DEFAULT_CONFIG day =
     \<lparr>priv_ctx = None, config = DEFAULT_CONFIG, selfId = [], timers = [],
      stats = \<lparr>processed = Num 0, todayProcessed = Num 0, lastUpdateDay = day\<rparr>,
      vipLikeCounts = Map.empty, lastVipLikeResetDay = day\<rparr>"

text \<open>A running bot, account \<open>10001\<close>: two friends, \<open>100\<close> with three reciprocations today
  and \<open>200\<close> with two; the limit for members is three. The remote side knows both as
  friends and as members, and every call resolves.\<close>

definition monday :: jsstring where
  "monday = str ''Mon Nov 02 2026''"

definition sunday :: jsstring where
  "sunday = str ''Sun Nov 01 2026''"

definition exampleConfig :: PluginConfig where
  "exampleConfig =
     \<lparr>enabled = True, debug = False, autoLikeEnabled = True, blacklist = [Num 400],
      vipLikeLimit = Num 3, autoLikeSomeoneEnabled = True, autoLikeInterval = Num 60,
      autoLikeTimes = Num 5, autoLikeUsers = [Num 1, Num 2]\<rparr>"

definition exampleContext :: Context where
  "exampleContext = \<lparr>configPath = str ''/napcat/config/plugin.json'', dataPath = str ''/napcat/data''\<rparr>"

definition exampleState :: PluginState where
  "exampleState =
     (newPluginState exampleConfig monday)
       \<lparr>priv_ctx := Some exampleContext, selfId := str ''10001'',
        stats := \<lparr>processed = Num 40, todayProcessed = Num 7, lastUpdateDay = monday\<rparr>,
        vipLikeCounts := [Num 100 \<mapsto> Num 3, Num 200 \<mapsto> Num 2]\<rparr>"

definition exampleEnv :: env where
  "exampleEnv =
     \<lparr>remote = (\<lambda>tr action params.
        if action = str ''get_friend_list''
        then Inr (JObj [(str ''data'', JArr [JObj [(str ''user_id'', JNum (Num 100))],
                                             JObj [(str ''user_id'', JNum (Num 200))]])])
        else if action = str ''get_stranger_info''
        then Inr (JObj [(str ''data'', JObj [(str ''vip'', JBool True)])])
        else Inr JNull),
      clock = (\<lambda>n. monday),
      writeFails = (\<lambda>tr path. False)\<rparr>"

text \<open>The same remote side, except that \<open>send_like\<close> rejects.\<close>

definition rejectingEnv :: "jsstring \<Rightarrow> env" where
  "rejectingEnv message = exampleEnv\<lparr>remote := (\<lambda>tr action params. Inl message)\<rparr>"

definition world0 :: world where
  "world0 = \<lparr>trace = [], clockReads = 0\<rparr>"

definition likeFrom100 :: LikeEvent where
  "likeFrom100 =
     \<lparr>notice_type = str ''thumb_up'', sub_type = None, target_id = Num 10001,
      user_id = Num 100, group_id = None, count = Some (Num 3)\<rparr>"

definition pokeFrom200 :: LikeEvent where
  "pokeFrom200 =
     \<lparr>notice_type = str ''notify'', sub_type = Some (str ''poke''), target_id = Num 10001,
      user_id = Num 200, group_id = Some (Num 555), count = None\<rparr>"

definition pokeFrom400 :: LikeEvent where
  "pokeFrom400 = pokeFrom200\<lparr>user_id := Num 400\<rparr>"

text \<open>The same bot on Monday, its day markers and counters still those of Sunday; a poke
  aimed at another account; and the bot whose own identifier is not known yet.\<close>

definition staleState :: PluginState where
  "staleState =
     exampleState
       \<lparr>stats := \<lparr>processed = Num 40, todayProcessed = Num 7, lastUpdateDay = sunday\<rparr>,
        lastVipLikeResetDay := sunday\<rparr>"

definition pokeAtOther :: LikeEvent where
  "pokeAtOther = pokeFrom200\<lparr>target_id := Num 20002\<rparr>"

definition anonymousState :: PluginState where
  "anonymousState = exampleState\<lparr>selfId := []\<rparr>"

section \<open>Basic facts\<close>

lemma str_eq_iff [simp]: "str a = str b \<longleftrightarrow> a = b"
  unfolding str_def by (simp add: inj_map_eq_map [OF inj_of_char])

lemmas parse_eval =
  parseInt_def isWhiteSpace_def isRadixDigit_def digitVal_def digitsValue_def str_def

section \<open>Properties of the configuration cleaning\<close>

lemma map_of_assign [simp]: "map_of (assign k v out) = (map_of out)(str k \<mapsto> v)"
  by (simp add: assign_def update_conv')

lemma isNumberArray_idsOfString [simp]: "isNumberArray (idsOfString s)"
  by (auto simp: idsOfString_def)

lemma readProp_copyIfType:
  "readProp (JObj (copyIfType ty k raw out)) k' =
     (if k' = k \<and> typeof (readProp raw k) = ty then readProp raw k else readProp (JObj out) k')"
  by (simp add: copyIfType_def)

lemma readProp_copyIdList_other:
  "k' \<noteq> k \<Longrightarrow> readProp (JObj (copyIdList k raw out)) k' = readProp (JObj out) k'"
  by (simp add: copyIdList_def split: jsval.split)

lemma isNumberArray_copyIdList:
  "isNumberArray (readProp (JObj out) k) \<Longrightarrow> isNumberArray (readProp (JObj (copyIdList k raw out)) k)"
  by (simp add: copyIdList_def split: jsval.split)

lemma sanitizeConfig_types: "hasDeclaredTypes D \<Longrightarrow> hasDeclaredTypes (sanitizeConfig D x)"
  unfolding sanitizeConfig_def hasDeclaredTypes_def Let_def
  by (simp add: readProp_copyIfType readProp_copyIdList_other isNumberArray_copyIdList del: readProp.simps)

lemma alist_eqI:
  "distinct (map fst xs) \<Longrightarrow> map fst xs = map fst ys \<Longrightarrow> map_of xs = map_of ys \<Longrightarrow> xs = ys"
proof (induction xs arbitrary: ys)
  case Nil
  then show ?case by simp
next
  case (Cons x xs)
  then obtain y ys' where ys: "ys = y # ys'" by (cases ys) auto
  from Cons.prems(2) ys have fst_eq: "fst x = fst y" and keys: "map fst xs = map fst ys'"
    by auto
  from Cons.prems(3) have "map_of (x # xs) (fst x) = map_of ys (fst x)" by (rule fun_cong)
  with fst_eq ys have "snd x = snd y" by simp
  with fst_eq have xy: "x = y" by (simp add: prod_eq_iff)
  from Cons.prems(1) have notin: "fst x \<notin> set (map fst xs)" and dist: "distinct (map fst xs)"
    by auto
  have "map_of xs j = map_of ys' j" for j
  proof (cases "j = fst x")
    case True
    with notin keys show ?thesis
      by (metis map_of_eq_None_iff set_map)
  next
    case False
    with Cons.prems(3) ys xy show ?thesis
      by (cases y) (auto simp: fun_eq_iff split: if_splits)
  qed
  then have "map_of xs = map_of ys'" by (rule ext)
  with Cons.IH [OF dist keys] xy ys show ?case by simp
qed

lemma keys_assign: "str k \<in> set (map fst out) \<Longrightarrow> map fst (assign k v out) = map fst out"
  by (simp add: assign_def update_keys)

lemma keys_copyIfType:
  "str k \<in> set (map fst out) \<Longrightarrow> map fst (copyIfType ty k raw out) = map fst out"
  by (simp add: copyIfType_def keys_assign)

lemma keys_copyIdList:
  "str k \<in> set (map fst out) \<Longrightarrow> map fst (copyIdList k raw out) = map fst out"
  by (simp add: copyIdList_def keys_assign split: jsval.split)

lemma has_key: "readProp (JObj c) k \<noteq> JUndefined \<Longrightarrow> str k \<in> set (map fst c)"
  by (cases "map_of c (str k)") (auto dest!: map_of_SomeD intro: rev_image_eqI)

lemma has_key_typeof: "typeof (readProp (JObj c) k) = ''boolean'' \<or> typeof (readProp (JObj c) k) = ''number'' \<or> isNumberArray (readProp (JObj c) k) \<Longrightarrow> str k \<in> set (map fst c)"
  by (rule has_key) auto

lemma sanitizeConfig_keys:
  assumes "hasDeclaredTypes D"
  shows "map fst (sanitizeConfig D x) = map fst D"
proof -
  from assms have
    "str ''enabled'' \<in> set (map fst D)" "str ''debug'' \<in> set (map fst D)"
    "str ''autoLikeEnabled'' \<in> set (map fst D)" "str ''vipLikeLimit'' \<in> set (map fst D)"
    "str ''blacklist'' \<in> set (map fst D)" "str ''autoLikeSomeoneEnabled'' \<in> set (map fst D)"
    "str ''autoLikeInterval'' \<in> set (map fst D)" "str ''autoLikeTimes'' \<in> set (map fst D)"
    "str ''autoLikeUsers'' \<in> set (map fst D)"
    unfolding hasDeclaredTypes_def by (blast intro: has_key_typeof)+
  then show ?thesis
    unfolding sanitizeConfig_def Let_def
    by (simp add: keys_copyIfType keys_copyIdList del: set_map)
qed


lemma copyIfType_typed:
  "typeof (readProp raw k) = ty \<Longrightarrow> copyIfType ty k raw out = assign k (readProp raw k) out"
  by (simp add: copyIfType_def)

lemma copyIdList_typed:
  "isNumberArray (readProp raw k) \<Longrightarrow> copyIdList k raw out = assign k (readProp raw k) out"
  by (cases "readProp raw k") (simp_all add: copyIdList_def)

lemma map_of_present:
  "readProp (JObj c) k \<noteq> JUndefined \<Longrightarrow> map_of c (str k) = Some (readProp (JObj c) k)"
  by (cases "map_of c (str k)") simp_all

lemma map_of_copyIfType_other:
  "j \<noteq> str k \<Longrightarrow> map_of (copyIfType ty k raw out) j = map_of out j"
  by (simp add: copyIfType_def)

lemma map_of_copyIdList_other:
  "j \<noteq> str k \<Longrightarrow> map_of (copyIdList k raw out) j = map_of out j"
  by (simp add: copyIdList_def split: jsval.split)

lemma sanitizeConfig_other:
  "j \<notin> str ` set configKeys \<Longrightarrow> map_of (sanitizeConfig D x) j = map_of D j"
  unfolding sanitizeConfig_def Let_def configKeys_def
  by (simp add: map_of_copyIfType_other map_of_copyIdList_other)

lemma typed_present:
  assumes "hasDeclaredTypes c" and "k \<in> set configKeys"
  shows "map_of c (str k) = Some (readProp (JObj c) k)"
proof (rule map_of_present)
  from assms show "readProp (JObj c) k \<noteq> JUndefined"
    unfolding hasDeclaredTypes_def configKeys_def by (auto simp del: readProp.simps)
qed

lemma sanitizeConfig_of_typed:
  assumes "hasDeclaredTypes c"
  shows "map_of (sanitizeConfig D (JObj c)) j =
           (if j \<in> str ` set configKeys then map_of c j else map_of D j)"
proof (cases "j \<in> str ` set configKeys")
  case False
  then show ?thesis by (simp add: sanitizeConfig_other)
next
  case True
  then obtain k where k: "k \<in> set configKeys" and j: "j = str k" by auto
  from assms have "sanitizeConfig D (JObj c) =
      assign ''autoLikeUsers'' (readProp (JObj c) ''autoLikeUsers'')
       (assign ''autoLikeTimes'' (readProp (JObj c) ''autoLikeTimes'')
        (assign ''autoLikeInterval'' (readProp (JObj c) ''autoLikeInterval'')
         (assign ''autoLikeSomeoneEnabled'' (readProp (JObj c) ''autoLikeSomeoneEnabled'')
          (assign ''blacklist'' (readProp (JObj c) ''blacklist'')
           (assign ''vipLikeLimit'' (readProp (JObj c) ''vipLikeLimit'')
            (assign ''autoLikeEnabled'' (readProp (JObj c) ''autoLikeEnabled'')
             (assign ''debug'' (readProp (JObj c) ''debug'')
              (assign ''enabled'' (readProp (JObj c) ''enabled'') D))))))))"
    unfolding sanitizeConfig_def Let_def hasDeclaredTypes_def
    by (simp add: copyIfType_typed copyIdList_typed isObject_def del: readProp.simps)
  then have "map_of (sanitizeConfig D (JObj c)) (str k) = Some (readProp (JObj c) k)"
    using k unfolding configKeys_def by (auto simp del: readProp.simps)
  with typed_present [OF assms k] True j show ?thesis by simp
qed

lemma sanitizeConfig_fixpoint:
  assumes D: "hasDeclaredTypes D" and dist: "distinct (map fst D)"
  shows "sanitizeConfig D (JObj (sanitizeConfig D x)) = sanitizeConfig D x"
proof (rule alist_eqI)
  let ?c = "sanitizeConfig D x"
  have c: "hasDeclaredTypes ?c" using D by (rule sanitizeConfig_types)
  show "distinct (map fst (sanitizeConfig D (JObj ?c)))"
    using D dist by (simp add: sanitizeConfig_keys)
  show "map fst (sanitizeConfig D (JObj ?c)) = map fst ?c"
    using D by (simp add: sanitizeConfig_keys)
  show "map_of (sanitizeConfig D (JObj ?c)) = map_of ?c"
  proof (rule ext)
    fix j
    show "map_of (sanitizeConfig D (JObj ?c)) j = map_of ?c j"
      using sanitizeConfig_of_typed [OF c, of D j] by (simp add: sanitizeConfig_other)
  qed
qed

text \<open>
  Claim C5. Let the default configuration be an object (each property once) whose nine
  fields have their declared types. Then for every value \<open>x\<close>, of whatever shape, cleaning
  the cleaned configuration again changes nothing, and the cleaned configuration has the
  declared types: booleans for the flags, numbers for the numeric fields, arrays of numbers
  for \<open>blacklist\<close> and \<open>autoLikeUsers\<close>. Where \<open>x\<close> gives one of the two lists as a string,
  the field is the array of the numbers its comma separated tokens parse to, without the
  tokens that do not parse.
\<close>

theorem sanitizeConfig_idempotent_typed:
  assumes "hasDeclaredTypes DEFAULT_CONFIG" and "distinct (map fst DEFAULT_CONFIG)"
  shows "sanitizeConfig DEFAULT_CONFIG (JObj (sanitizeConfig DEFAULT_CONFIG x)) =
           sanitizeConfig DEFAULT_CONFIG x
         \<and> hasDeclaredTypes (sanitizeConfig DEFAULT_CONFIG x)
         \<and> (\<forall>k s. isObject x \<and> (k = ''blacklist'' \<or> k = ''autoLikeUsers'') \<and> readProp x k = JStr s
               \<longrightarrow> readProp (JObj (sanitizeConfig DEFAULT_CONFIG x)) k =
                     JArr (map JNum (filter (\<lambda>n. n \<noteq> NaN)
                                       (map (\<lambda>t. parseInt (trim t) 10) (split_js 44 s)))))"
proof (intro conjI allI impI)
  show "sanitizeConfig DEFAULT_CONFIG (JObj (sanitizeConfig DEFAULT_CONFIG x)) =
          sanitizeConfig DEFAULT_CONFIG x"
    using assms by (rule sanitizeConfig_fixpoint)
  show "hasDeclaredTypes (sanitizeConfig DEFAULT_CONFIG x)"
    using assms(1) by (rule sanitizeConfig_types)
next
  fix k s
  assume a: "isObject x \<and> (k = ''blacklist'' \<or> k = ''autoLikeUsers'') \<and> readProp x k = JStr s"
  then have obj: "isObject x" and rd: "readProp x k = JStr s" by simp_all
  from a have "k = ''blacklist'' \<or> k = ''autoLikeUsers''" by simp
  then show "readProp (JObj (sanitizeConfig DEFAULT_CONFIG x)) k =
               JArr (map JNum (filter (\<lambda>n. n \<noteq> NaN)
                                 (map (\<lambda>t. parseInt (trim t) 10) (split_js 44 s))))"
  proof
    assume k: "k = ''blacklist''"
    with rd have "readProp (JObj (copyIdList ''blacklist'' x out)) ''blacklist'' = idsOfString s" for out
      by (simp add: copyIdList_def)
    with obj k show ?thesis
      unfolding sanitizeConfig_def Let_def
      by (simp add: readProp_copyIfType readProp_copyIdList_other idsOfString_def isNaN_def
            del: readProp.simps)
  next
    assume k: "k = ''autoLikeUsers''"
    with rd have "readProp (JObj (copyIdList ''autoLikeUsers'' x out)) ''autoLikeUsers'' = idsOfString s"
      for out
      by (simp add: copyIdList_def)
    with obj k show ?thesis
      unfolding sanitizeConfig_def Let_def
      by (simp add: idsOfString_def isNaN_def del: readProp.simps)
  qed
qed

theorem sanitizeConfig_idempotent_typed_witness:
  "hasDeclaredTypes exampleDefaults \<and> distinct (map fst exampleDefaults)
   \<and> sanitizeConfig exampleDefaults (JObj (sanitizeConfig exampleDefaults exampleRaw)) =
       sanitizeConfig exampleDefaults exampleRaw
   \<and> hasDeclaredTypes (sanitizeConfig exampleDefaults exampleRaw)
   \<and> readProp (JObj (sanitizeConfig exampleDefaults exampleRaw)) ''blacklist'' =
       JArr [JNum (Num 1), JNum (Num 2)]"
proof -
  have t: "hasDeclaredTypes exampleDefaults"
    by (simp add: hasDeclaredTypes_def exampleDefaults_def)
  have d: "distinct (map fst exampleDefaults)"
    by (simp add: exampleDefaults_def)
  have o: "isObject exampleRaw"
    by (simp add: isObject_def exampleRaw_def)
  have r: "readProp exampleRaw ''blacklist'' = JStr (str ''1, 2,x'')"
    by (simp add: exampleRaw_def)
  have v: "JArr (map JNum (filter (\<lambda>n. n \<noteq> NaN)
             (map (\<lambda>t. parseInt (trim t) 10) (split_js 44 (str ''1, 2,x''))))) =
           JArr [JNum (Num 1), JNum (Num 2)]"
    by (simp add: parse_eval trim_def)
  from sanitizeConfig_idempotent_typed [OF t d, of exampleRaw] o r v t d show ?thesis
    by (auto simp del: readProp.simps)
qed

section \<open>Properties of the state store\<close>

lemma trace_emit [simp]: "trace (emit e w) = trace w @ [e]"
  by (simp add: emit_def)

lemma clockReads_emit [simp]: "clockReads (emit e w) = clockReads w"
  by (simp add: emit_def)

lemma calls_append [simp]: "calls (xs @ ys) = calls xs @ calls ys"
  by (induction xs rule: calls.induct) simp_all

lemma ctx_Some [simp]: "priv_ctx s = Some c \<Longrightarrow> ctx s = Inr c"
  by (simp add: ctx_def)

lemma ctx_None [simp]: "priv_ctx s = None \<Longrightarrow> ctx s = Inl Uninitialized"
  by (simp add: ctx_def)

lemma logger_Some [simp]: "priv_ctx s = Some c \<Longrightarrow> logger lvl s w = (Inr (), emit (Log lvl) w)"
  by (simp add: logger_def)

lemma logger_None [simp]: "priv_ctx s = None \<Longrightarrow> logger lvl s w = (Inl Uninitialized, w)"
  by (simp add: logger_def)

lemma saveDataFile_None [simp]:
  "priv_ctx s = None \<Longrightarrow> saveDataFile E f d s w = (Inl Uninitialized, w)"
  by (simp add: saveDataFile_def getDataFilePath_def)

lemma saveDataFile_Some:
  "priv_ctx s = Some c \<Longrightarrow>
   saveDataFile E f d s w =
     (Inr (), emit (if writeFails E (trace w) (path_join (dataPath c) f) then Log LError
                    else WriteFile (path_join (dataPath c) f) d) w)"
  by (simp add: saveDataFile_def getDataFilePath_def)

lemma callApi_None [simp]: "priv_ctx s = None \<Longrightarrow> callApi E a p s w = (Inl Uninitialized, w)"
  by (simp add: callApi_def)

lemma callApi_Some:
  "priv_ctx s = Some c \<Longrightarrow>
   callApi E a p s w =
     ((case remote E (trace w) a p of Inl msg \<Rightarrow> Inl (Error msg) | Inr res \<Rightarrow> Inr res),
      emit (Call a p) w)"
  by (simp add: callApi_def split: sum.split)

lemma incrementProcessed_world:
  "snd (incrementProcessed E s w) = w\<lparr>clockReads := Suc (clockReads w)\<rparr>"
  by (simp add: incrementProcessed_def Date_toDateString_def Let_def)

lemma incrementProcessed_state:
  "clockReads w' = clockReads w \<Longrightarrow>
   fst (incrementProcessed E s w') = fst (incrementProcessed E s w)"
  by (simp add: incrementProcessed_def Date_toDateString_def Let_def)

lemma incrementProcessed_processed:
  "processed (stats (fst (incrementProcessed E s w))) = num_inc (processed (stats s))"
  by (simp add: incrementProcessed_def Date_toDateString_def Let_def)

lemma incrementProcessed_today:
  "todayProcessed (stats (fst (incrementProcessed E s w))) =
     num_inc (if lastUpdateDay (stats s) \<noteq> clock E (clockReads w) then Num 0
              else todayProcessed (stats s))"
  by (simp add: incrementProcessed_def Date_toDateString_def Let_def)

lemma incrementProcessed_marker:
  "lastUpdateDay (stats (fst (incrementProcessed E s w))) = clock E (clockReads w)"
  by (simp add: incrementProcessed_def Date_toDateString_def Let_def)

lemma incrementProcessed_ctx:
  "priv_ctx (fst (incrementProcessed E s w)) = priv_ctx s"
  "config (fst (incrementProcessed E s w)) = config s"
  by (simp_all add: incrementProcessed_def Date_toDateString_def Let_def)

lemma checkVipLikeReset_Some:
  assumes "priv_ctx s = Some c"
  shows "\<exists>s1 w1. checkVipLikeReset E s w = (Inr (), s1, w1)
           \<and> s1 = (if lastVipLikeResetDay s \<noteq> clock E (clockReads w)
                   then s\<lparr>vipLikeCounts := Map.empty, lastVipLikeResetDay := clock E (clockReads w)\<rparr>
                   else s)
           \<and> calls (trace w1) = calls (trace w)
           \<and> clockReads w1 = Suc (clockReads w)"
  using assms
  by (simp add: checkVipLikeReset_def Date_toDateString_def Let_def saveDataFile_Some)

lemma checkVipLikeReset_fields:
  "priv_ctx (fst (snd (checkVipLikeReset E s w))) = priv_ctx s"
  "config (fst (snd (checkVipLikeReset E s w))) = config s"
  "stats (fst (snd (checkVipLikeReset E s w))) = stats s"
  "selfId (fst (snd (checkVipLikeReset E s w))) = selfId s"
  by (simp_all add: checkVipLikeReset_def Date_toDateString_def Let_def split_beta)

lemma checkVipLikeReset_state:
  "clockReads w' = clockReads w \<Longrightarrow>
   fst (snd (checkVipLikeReset E s w')) = fst (snd (checkVipLikeReset E s w))"
  by (simp add: checkVipLikeReset_def Date_toDateString_def Let_def split_beta)

lemma getVipLikeCount_Some:
  assumes "priv_ctx s = Some c"
  shows "\<exists>s1 w1. getVipLikeCount E userId s w = (Inr (num_or0 (vipLikeCounts s1 userId)), s1, w1)
           \<and> s1 = fst (snd (checkVipLikeReset E s w))
           \<and> calls (trace w1) = calls (trace w)"
  using checkVipLikeReset_Some [OF assms, of E w]
  by (auto simp: getVipLikeCount_def)

lemma getVipLikeCount_state:
  "fst (snd (getVipLikeCount E userId s w)) = fst (snd (checkVipLikeReset E s w))"
  by (simp add: getVipLikeCount_def split: prod.split sum.split)

lemma incrementVipLikeCount_Some:
  assumes "priv_ctx s = Some c"
  shows "\<exists>w1. incrementVipLikeCount E userId s w =
             (Inr (),
              (fst (snd (checkVipLikeReset E s w)))
                \<lparr>vipLikeCounts :=
                   (vipLikeCounts (fst (snd (checkVipLikeReset E s w))))
                     (userId \<mapsto> num_inc (num_or0 (vipLikeCounts (fst (snd (checkVipLikeReset E s w))) userId)))\<rparr>,
              w1)
           \<and> calls (trace w1) = calls (trace w)"
  using checkVipLikeReset_Some [OF assms, of E w] assms
  by (auto simp: incrementVipLikeCount_def Let_def saveDataFile_Some split: if_splits)

lemmas example_defs =
  exampleEnv_def exampleState_def exampleConfig_def exampleContext_def newPluginState_def
  world0_def monday_def

lemmas handler_eval =
  checkFriend_def checkVipLimit_def callApi_def ctx_def isFriend_def isVip_def getProp_def
  strictEq_def emit_def getVipLikeCount_def checkVipLikeReset_def Date_toDateString_def

text \<open>
  Claim C4. Day rollover holds for both daily counters. When the day read from the clock
  differs from \<open>lastUpdateDay\<close>, \<open>incrementProcessed\<close> leaves \<open>todayProcessed\<close> at one (reset to
  zero, then incremented) and the marker at the current day. When it differs from
  \<open>lastVipLikeResetDay\<close>, a read (\<open>getVipLikeCount\<close>) and a write (\<open>incrementVipLikeCount\<close>)
  first clear the counters and set the marker: the read returns zero and the write leaves the
  user at one, so that the count of the old day is neither returned nor incremented. (On a
  store without context the rollover still happens, and the access then throws when it
  saves the cleared counters.)
\<close>

theorem counters_day_rollover:
  "(lastUpdateDay (stats s) \<noteq> clock E (clockReads w) \<longrightarrow>
      stats (fst (incrementProcessed E s w)) =
        \<lparr>processed = num_inc (processed (stats s)), todayProcessed = Num 1,
         lastUpdateDay = clock E (clockReads w)\<rparr>)
   \<and> (lastVipLikeResetDay s \<noteq> clock E (clockReads w) \<longrightarrow>
        (case getVipLikeCount E userId s w of
           (r, s1, w1) \<Rightarrow>
             vipLikeCounts s1 = Map.empty \<and> lastVipLikeResetDay s1 = clock E (clockReads w) \<and>
             r = (if priv_ctx s = None then Inl Uninitialized else Inr (Num 0))))
   \<and> (lastVipLikeResetDay s \<noteq> clock E (clockReads w) \<longrightarrow>
        (case incrementVipLikeCount E userId s w of
           (r, s1, w1) \<Rightarrow>
             lastVipLikeResetDay s1 = clock E (clockReads w) \<and>
             r = (if priv_ctx s = None then Inl Uninitialized else Inr ()) \<and>
             vipLikeCounts s1 =
               (if priv_ctx s = None then Map.empty else [userId \<mapsto> Num 1])))"
proof (intro conjI impI)
  assume "lastUpdateDay (stats s) \<noteq> clock E (clockReads w)"
  then show "stats (fst (incrementProcessed E s w)) =
        \<lparr>processed = num_inc (processed (stats s)), todayProcessed = Num 1,
         lastUpdateDay = clock E (clockReads w)\<rparr>"
    by (simp add: incrementProcessed_def Date_toDateString_def Let_def)
next
  assume d: "lastVipLikeResetDay s \<noteq> clock E (clockReads w)"
  show "case getVipLikeCount E userId s w of
           (r, s1, w1) \<Rightarrow>
             vipLikeCounts s1 = Map.empty \<and> lastVipLikeResetDay s1 = clock E (clockReads w) \<and>
             r = (if priv_ctx s = None then Inl Uninitialized else Inr (Num 0))"
  proof (cases "priv_ctx s")
    case None
    with d show ?thesis
      by (simp add: getVipLikeCount_def checkVipLikeReset_def Date_toDateString_def Let_def)
  next
    case (Some c)
    with d show ?thesis
      by (simp add: getVipLikeCount_def checkVipLikeReset_def Date_toDateString_def Let_def
            saveDataFile_Some)
  qed
  show "case incrementVipLikeCount E userId s w of
           (r, s1, w1) \<Rightarrow>
             lastVipLikeResetDay s1 = clock E (clockReads w) \<and>
             r = (if priv_ctx s = None then Inl Uninitialized else Inr ()) \<and>
             vipLikeCounts s1 =
               (if priv_ctx s = None then Map.empty else [userId \<mapsto> Num 1])"
  proof (cases "priv_ctx s")
    case None
    with d show ?thesis
      by (simp add: incrementVipLikeCount_def checkVipLikeReset_def Date_toDateString_def Let_def)
  next
    case (Some c)
    with d show ?thesis
      by (simp add: incrementVipLikeCount_def checkVipLikeReset_def Date_toDateString_def Let_def
            saveDataFile_Some)
  qed
qed

theorem counters_day_rollover_witness:
  "stats (fst (incrementProcessed exampleEnv staleState world0)) =
     \<lparr>processed = Num 41, todayProcessed = Num 1, lastUpdateDay = monday\<rparr>
   \<and> fst (getVipLikeCount exampleEnv (Num 100) staleState world0) = Inr (Num 0)
   \<and> vipLikeCounts (fst (snd (getVipLikeCount exampleEnv (Num 100) staleState world0))) = Map.empty
   \<and> vipLikeCounts (fst (snd (incrementVipLikeCount exampleEnv (Num 100) staleState world0))) =
       [Num 100 \<mapsto> Num 1]
   \<and> lastVipLikeResetDay (fst (snd (incrementVipLikeCount exampleEnv (Num 100) staleState world0))) =
       monday"
proof -
  have d1: "lastUpdateDay (stats staleState) \<noteq> clock exampleEnv (clockReads world0)"
    and d2: "lastVipLikeResetDay staleState \<noteq> clock exampleEnv (clockReads world0)"
    by (simp_all add: example_defs staleState_def sunday_def)
  have v: "processed (stats staleState) = Num 40" "clock exampleEnv (clockReads world0) = monday"
    "priv_ctx staleState \<noteq> None"
    by (simp_all add: example_defs staleState_def sunday_def)
  from counters_day_rollover [of staleState exampleEnv world0 "Num 100"] d1 d2 v show ?thesis
    by (auto split: prod.splits)
qed

text \<open>
  Claim C9 says that every operation of the store fails with the error of the \<open>ctx\<close> getter
  when it is invoked before \<open>init\<close> or after \<open>cleanup\<close>. \<open>saveConfig\<close> does not: it tests
  \<open>_ctx\<close> itself and returns without an error and without writing; and \<open>incrementProcessed\<close>
  never touches the context and counts as usual. Both on a store that was never initialised:
\<close>

theorem saveConfig_without_context_counterexample:
  "priv_ctx (newPluginState exampleConfig monday) = None
   \<and> saveConfig exampleEnv (newPluginState exampleConfig monday) world0 = (Inr (), world0)
   \<and> fst (saveConfig exampleEnv (newPluginState exampleConfig monday) world0) \<noteq> Inl Uninitialized
   \<and> processed (stats (fst (incrementProcessed exampleEnv (newPluginState exampleConfig monday)
        world0))) = Num 1"
  by (simp add: newPluginState_def saveConfig_def incrementProcessed_def Date_toDateString_def
        Let_def)

text \<open>
  Claim C9, amended. On a store without context (before \<open>init\<close>, or after a \<open>cleanup\<close> that
  returned, which leaves \<open>_ctx\<close> at \<open>null\<close>):
  \<^item> the \<open>ctx\<close> getter, the logger, \<open>getDataFilePath\<close>, \<open>saveDataFile\<close> and \<open>callApi\<close> fail with
    the error of the getter and have no other effect;
  \<^item> the two counter operations fail with that error where they save, after what they have
    already changed in memory: \<open>getVipLikeCount\<close> fails on a day rollover, with the counters
    cleared and \<open>lastVipLikeResetDay\<close> moved to the current day, and without rollover returns
    the count and changes nothing; \<open>incrementVipLikeCount\<close> fails always, on a day rollover
    with the counters cleared and the marker moved (and nothing incremented), without
    rollover with the user's counter incremented;
  \<^item> \<open>saveConfig\<close> returns normally and writes nothing;
  \<^item> \<open>incrementProcessed\<close>, which never reads the context, counts as usual.
\<close>

theorem store_without_context:
  "(priv_ctx s = None \<longrightarrow>
      ctx s = Inl Uninitialized
      \<and> logger lvl s w = (Inl Uninitialized, w)
      \<and> getDataFilePath filename s = Inl Uninitialized
      \<and> saveDataFile E filename data s w = (Inl Uninitialized, w)
      \<and> callApi E action params s w = (Inl Uninitialized, w)
      \<and> saveConfig E s w = (Inr (), w)
      \<and> snd (incrementProcessed E s w) = w\<lparr>clockReads := Suc (clockReads w)\<rparr>
      \<and> processed (stats (fst (incrementProcessed E s w))) = num_inc (processed (stats s))
      \<and> getVipLikeCount E userId s w =
          (if lastVipLikeResetDay s \<noteq> clock E (clockReads w)
           then (Inl Uninitialized,
                 s\<lparr>vipLikeCounts := Map.empty, lastVipLikeResetDay := clock E (clockReads w)\<rparr>,
                 w\<lparr>clockReads := Suc (clockReads w)\<rparr>)
           else (Inr (num_or0 (vipLikeCounts s userId)), s, w\<lparr>clockReads := Suc (clockReads w)\<rparr>))
      \<and> incrementVipLikeCount E userId s w =
          (if lastVipLikeResetDay s \<noteq> clock E (clockReads w)
           then (Inl Uninitialized,
                 s\<lparr>vipLikeCounts := Map.empty, lastVipLikeResetDay := clock E (clockReads w)\<rparr>,
                 w\<lparr>clockReads := Suc (clockReads w)\<rparr>)
           else (Inl Uninitialized,
                 s\<lparr>vipLikeCounts :=
                     (vipLikeCounts s)(userId \<mapsto> num_inc (num_or0 (vipLikeCounts s userId)))\<rparr>,
                 w\<lparr>clockReads := Suc (clockReads w)\<rparr>)))
   \<and> (\<forall>s1 w1. cleanup E s w = (Inr (), s1, w1) \<longrightarrow> priv_ctx s1 = None)"
proof (intro conjI impI allI)
  fix s1 w1
  assume "cleanup E s w = (Inr (), s1, w1)"
  then show "priv_ctx s1 = None"
    by (auto simp: cleanup_def Let_def split: prod.splits sum.splits)
qed (simp_all add: getDataFilePath_def saveConfig_def incrementProcessed_def
       getVipLikeCount_def incrementVipLikeCount_def checkVipLikeReset_def
       Date_toDateString_def Let_def)

theorem store_without_context_witness:
  "priv_ctx (newPluginState exampleConfig monday) = None
   \<and> ctx (newPluginState exampleConfig monday) = Inl Uninitialized
   \<and> saveDataFile exampleEnv vip_likes_json (VipLikes Map.empty)
       (newPluginState exampleConfig monday) world0 = (Inl Uninitialized, world0)
   \<and> callApi exampleEnv (str ''get_friend_list'') (JObj []) (newPluginState exampleConfig monday)
       world0 = (Inl Uninitialized, world0)
   \<and> saveConfig exampleEnv (newPluginState exampleConfig monday) world0 = (Inr (), world0)
   \<and> getVipLikeCount exampleEnv (Num 100)
       ((newPluginState exampleConfig sunday)\<lparr>vipLikeCounts := [Num 100 \<mapsto> Num 3]\<rparr>) world0 =
       (Inl Uninitialized, newPluginState exampleConfig sunday\<lparr>lastVipLikeResetDay := monday\<rparr>,
        world0\<lparr>clockReads := 1\<rparr>)
   \<and> getVipLikeCount exampleEnv (Num 100)
       ((newPluginState exampleConfig monday)\<lparr>vipLikeCounts := [Num 100 \<mapsto> Num 3]\<rparr>) world0 =
       (Inr (Num 3), (newPluginState exampleConfig monday)\<lparr>vipLikeCounts := [Num 100 \<mapsto> Num 3]\<rparr>,
        world0\<lparr>clockReads := 1\<rparr>)
   \<and> incrementVipLikeCount exampleEnv (Num 100)
       ((newPluginState exampleConfig monday)\<lparr>vipLikeCounts := [Num 100 \<mapsto> Num 3]\<rparr>) world0 =
       (Inl Uninitialized,
        (newPluginState exampleConfig monday)\<lparr>vipLikeCounts := [Num 100 \<mapsto> Num 4]\<rparr>,
        world0\<lparr>clockReads := 1\<rparr>)
   \<and> incrementVipLikeCount exampleEnv (Num 100)
       ((newPluginState exampleConfig sunday)\<lparr>vipLikeCounts := [Num 100 \<mapsto> Num 3]\<rparr>) world0 =
       (Inl Uninitialized, newPluginState exampleConfig sunday\<lparr>lastVipLikeResetDay := monday\<rparr>,
        world0\<lparr>clockReads := 1\<rparr>)
   \<and> fst (cleanup exampleEnv exampleState world0) = Inr ()
   \<and> priv_ctx (fst (snd (cleanup exampleEnv exampleState world0))) = None"
proof -
  let ?fresh = "newPluginState exampleConfig monday"
  let ?today = "(newPluginState exampleConfig monday)\<lparr>vipLikeCounts := [Num 100 \<mapsto> Num 3]\<rparr>"
  let ?stale = "(newPluginState exampleConfig sunday)\<lparr>vipLikeCounts := [Num 100 \<mapsto> Num 3]\<rparr>"
  have n: "priv_ctx ?fresh = None" "priv_ctx ?today = None" "priv_ctx ?stale = None"
    by (simp_all add: newPluginState_def)
  have d: "lastVipLikeResetDay ?today = clock exampleEnv (clockReads world0)"
    "lastVipLikeResetDay ?stale \<noteq> clock exampleEnv (clockReads world0)"
    "clock exampleEnv (clockReads world0) = monday" "clockReads world0 = 0"
    by (simp_all add: newPluginState_def example_defs sunday_def)
  have v: "num_or0 (vipLikeCounts ?today (Num 100)) = Num 3"
    "?stale\<lparr>vipLikeCounts := Map.empty, lastVipLikeResetDay := monday\<rparr> =
       newPluginState exampleConfig sunday\<lparr>lastVipLikeResetDay := monday\<rparr>"
    "?today\<lparr>vipLikeCounts := (vipLikeCounts ?today)(Num 100 \<mapsto> num_inc (Num 3))\<rparr> =
       (newPluginState exampleConfig monday)\<lparr>vipLikeCounts := [Num 100 \<mapsto> Num 4]\<rparr>"
    by (simp_all add: newPluginState_def)
  have c: "cleanup exampleEnv exampleState world0 =
             (Inr (), fst (snd (cleanup exampleEnv exampleState world0)),
              snd (snd (cleanup exampleEnv exampleState world0)))"
    by (simp add: cleanup_def example_defs saveConfig_def saveDataFile_def getDataFilePath_def
          ctx_def Let_def)
  have fresh: "ctx ?fresh = Inl Uninitialized
     \<and> saveDataFile exampleEnv vip_likes_json (VipLikes Map.empty) ?fresh world0 =
         (Inl Uninitialized, world0)
     \<and> callApi exampleEnv (str ''get_friend_list'') (JObj []) ?fresh world0 =
         (Inl Uninitialized, world0)
     \<and> saveConfig exampleEnv ?fresh world0 = (Inr (), world0)"
    using store_without_context [where s = ?fresh and w = world0
      and E = exampleEnv and filename = vip_likes_json and data = "VipLikes Map.empty"
      and action = "str ''get_friend_list''" and params = "JObj []"] n(1)
    by blast
  have today: "getVipLikeCount exampleEnv (Num 100) ?today world0 =
         (Inr (Num 3), ?today, world0\<lparr>clockReads := 1\<rparr>)
     \<and> incrementVipLikeCount exampleEnv (Num 100) ?today world0 =
         (Inl Uninitialized,
          (newPluginState exampleConfig monday)\<lparr>vipLikeCounts := [Num 100 \<mapsto> Num 4]\<rparr>,
          world0\<lparr>clockReads := 1\<rparr>)"
    using store_without_context [where s = ?today and w = world0 and E = exampleEnv
      and userId = "Num 100"] n(2) d(1,4) v(1,3)
    by simp
  have stale: "getVipLikeCount exampleEnv (Num 100) ?stale world0 =
         (Inl Uninitialized, newPluginState exampleConfig sunday\<lparr>lastVipLikeResetDay := monday\<rparr>,
          world0\<lparr>clockReads := 1\<rparr>)
     \<and> incrementVipLikeCount exampleEnv (Num 100) ?stale world0 =
         (Inl Uninitialized, newPluginState exampleConfig sunday\<lparr>lastVipLikeResetDay := monday\<rparr>,
          world0\<lparr>clockReads := 1\<rparr>)"
    using store_without_context [where s = ?stale and w = world0 and E = exampleEnv
      and userId = "Num 100"] n(3) d(2,3,4) v(2)
    by simp
  have clean: "fst (cleanup exampleEnv exampleState world0) = Inr ()
     \<and> priv_ctx (fst (snd (cleanup exampleEnv exampleState world0))) = None"
    using store_without_context [where s = exampleState and w = world0 and E = exampleEnv] c
    by (metis fst_conv)
  from n(1) fresh today stale clean show ?thesis
    by simp
qed

lemma no_signature_in_Error: "\<not> includes_js (str ''Error'') (str ''No data returned'')"
  by (simp add: includes_js_def str_def sublist_code)

lemma errMsg_signature:
  "includes_js (errMsg message) (str ''No data returned'') =
   includes_js message (str ''No data returned'')"
proof (cases "message = []")
  case True
  then show ?thesis
    using no_signature_in_Error by (simp add: errMsg_def includes_js_def str_def sublist_code)
next
  case False
  then show ?thesis by (simp add: errMsg_def)
qed

lemma autoLikeOne_resolved:
  assumes "priv_ctx s = Some c"
    and "remote E (trace w) (str ''send_like'')
           (JObj [(str ''user_id'', JStr (String_num userId)), (str ''times'', JNum t)]) = Inr res"
  shows "autoLikeOne E t userId s w =
           (Inr (), fst (incrementProcessed E s w),
            w\<lparr>trace := trace w @ [Call (str ''send_like'')
                 (JObj [(str ''user_id'', JStr (String_num userId)), (str ''times'', JNum t)]),
               Log LInfo, Sleep 1000],
             clockReads := Suc (clockReads w)\<rparr>)"
proof -
  let ?w2 = "emit (Log LInfo) (emit (Call (str ''send_like'')
      (JObj [(str ''user_id'', JStr (String_num userId)), (str ''times'', JNum t)])) w)"
  have st: "fst (incrementProcessed E s ?w2) = fst (incrementProcessed E s w)"
    by (rule incrementProcessed_state) simp
  from assms show ?thesis
    by (simp add: autoLikeOne_def callApi_Some split_beta incrementProcessed_world st)
qed

lemma autoLikeOne_rejected:
  assumes "priv_ctx s = Some c"
    and "remote E (trace w) (str ''send_like'')
           (JObj [(str ''user_id'', JStr (String_num userId)), (str ''times'', JNum t)]) = Inl message"
  shows "autoLikeOne E t userId s w =
           (if includes_js message (str ''No data returned'')
            then (Inr (), fst (incrementProcessed E s w),
                  w\<lparr>trace := trace w @ [Call (str ''send_like'')
                       (JObj [(str ''user_id'', JStr (String_num userId)), (str ''times'', JNum t)]),
                     Log LInfo],
                   clockReads := Suc (clockReads w)\<rparr>)
            else (Inr (), s,
                  w\<lparr>trace := trace w @ [Call (str ''send_like'')
                       (JObj [(str ''user_id'', JStr (String_num userId)), (str ''times'', JNum t)]),
                     Log LError]\<rparr>))"
proof -
  let ?w2 = "emit (Log LInfo) (emit (Call (str ''send_like'')
      (JObj [(str ''user_id'', JStr (String_num userId)), (str ''times'', JNum t)])) w)"
  have st: "fst (incrementProcessed E s ?w2) = fst (incrementProcessed E s w)"
    by (rule incrementProcessed_state) simp
  from assms show ?thesis
    by (simp add: autoLikeOne_def autoLikeCatch_def callApi_Some split_beta prod_eq_iff
          incrementProcessed_world st errMsg_signature)
qed

text \<open>
  Claim C8. In the proactive-like loop on an initialised store, let the \<open>send_like\<close> call for
  a target reject with some message. If the message contains \<open>No data returned\<close>, the target
  counts as done: an info line is logged and \<open>incrementProcessed\<close> runs (\<open>processed\<close> goes up by
  one, \<open>todayProcessed\<close> by one after its day rollover). With any other message an error line
  is logged and the state is unchanged. In both cases the turn ends normally and the loop
  goes on with the remaining targets.
\<close>

theorem autoLike_failure_handling:
  assumes "priv_ctx s = Some c"
    and "remote E (trace w) (str ''send_like'')
           (JObj [(str ''user_id'', JStr (String_num userId)), (str ''times'', JNum t)]) = Inl message"
  shows "\<exists>s1 w1.
           autoLikeOne E t userId s w = (Inr (), s1, w1)
           \<and> autoLikeLoop E t (userId # rest) s w = autoLikeLoop E t rest s1 w1
           \<and> (includes_js message (str ''No data returned'') \<longrightarrow>
                s1 = fst (incrementProcessed E s w)
                \<and> processed (stats s1) = num_inc (processed (stats s))
                \<and> todayProcessed (stats s1) =
                    num_inc (if lastUpdateDay (stats s) \<noteq> clock E (clockReads w) then Num 0
                             else todayProcessed (stats s))
                \<and> trace w1 = trace w @
                    [Call (str ''send_like'')
                       (JObj [(str ''user_id'', JStr (String_num userId)), (str ''times'', JNum t)]),
                     Log LInfo])
           \<and> (\<not> includes_js message (str ''No data returned'') \<longrightarrow>
                s1 = s
                \<and> trace w1 = trace w @
                    [Call (str ''send_like'')
                       (JObj [(str ''user_id'', JStr (String_num userId)), (str ''times'', JNum t)]),
                     Log LError])"
  using autoLikeOne_rejected [OF assms]
  by (simp add: incrementProcessed_processed incrementProcessed_today)

theorem autoLike_failure_handling_witness:
  "processed (stats (fst (snd (autoLikeOne (rejectingEnv (str ''Error: No data returned''))
       (Num 5) (Num 1) exampleState world0)))) = Num 41
   \<and> fst (snd (autoLikeOne (rejectingEnv (str ''timeout'')) (Num 5) (Num 1) exampleState world0)) =
       exampleState
   \<and> trace (snd (snd (autoLikeOne (rejectingEnv (str ''timeout'')) (Num 5) (Num 1) exampleState
       world0))) =
       [Call (str ''send_like'') (JObj [(str ''user_id'', JStr (str ''1'')), (str ''times'', JNum (Num 5))]),
        Log LError]"
proof -
  have init: "priv_ctx exampleState = Some exampleContext"
    and p: "processed (stats exampleState) = Num 40"
    by (simp_all add: example_defs)
  have s1: "String_num (Num 1) = str ''1''"
    by (simp add: digits.simps str_def)
  have r1: "remote (rejectingEnv (str ''Error: No data returned'')) (trace world0) (str ''send_like'')
              (JObj [(str ''user_id'', JStr (String_num (Num 1))), (str ''times'', JNum (Num 5))]) =
            Inl (str ''Error: No data returned'')"
    and r2: "remote (rejectingEnv (str ''timeout'')) (trace world0) (str ''send_like'')
              (JObj [(str ''user_id'', JStr (String_num (Num 1))), (str ''times'', JNum (Num 5))]) =
            Inl (str ''timeout'')"
    by (simp_all add: rejectingEnv_def)
  have i1: "includes_js (str ''Error: No data returned'') (str ''No data returned'')"
    and i2: "\<not> includes_js (str ''timeout'') (str ''No data returned'')"
    by (simp_all add: includes_js_def str_def sublist_code)
  from autoLike_failure_handling [OF init r1, of "[]"] autoLike_failure_handling [OF init r2, of "[]"]
    i1 i2 p s1
  show ?thesis
    by (auto simp: world0_def)
qed

text \<open>
  Claim C3. With \<open>autoLikeSomeoneEnabled\<close>, \<open>autoLikeUsers = [1, 2]\<close> and \<open>autoLikeTimes = 5\<close> on
  an initialised store whose \<open>send_like\<close> calls resolve, one pass issues exactly two calls,
  \<open>{user_id: "1", times: 5}\<close> and then \<open>{user_id: "2", times: 5}\<close>, each followed by its log line
  and a sleep of 1000 ms, and nothing else; \<open>processed\<close> goes up by two, and so does
  \<open>todayProcessed\<close> when both increments read the day that \<open>lastUpdateDay\<close> holds (the day
  rollover of \<open>incrementProcessed\<close> is claim C4).
\<close>

theorem executeAutoLike_two_targets:
  assumes init: "priv_ctx s = Some c"
    and cfg: "autoLikeSomeoneEnabled (config s)" "autoLikeUsers (config s) = [Num 1, Num 2]"
      "autoLikeTimes (config s) = Num 5"
    and ok: "\<And>tr p. \<exists>res. remote E tr (str ''send_like'') p = Inr res"
    and cnt: "processed (stats s) = Num p" "todayProcessed (stats s) = Num d"
  shows "\<exists>s1 w1.
           executeAutoLike E s w = (Inr (), s1, w1)
           \<and> trace w1 = trace w @
                [Call (str ''send_like'') (JObj [(str ''user_id'', JStr (str ''1'')), (str ''times'', JNum (Num 5))]),
                 Log LInfo, Sleep 1000,
                 Call (str ''send_like'') (JObj [(str ''user_id'', JStr (str ''2'')), (str ''times'', JNum (Num 5))]),
                 Log LInfo, Sleep 1000]
           \<and> processed (stats s1) = Num (p + 2)
           \<and> (clock E (clockReads w) = lastUpdateDay (stats s) \<and>
               clock E (Suc (clockReads w)) = lastUpdateDay (stats s) \<longrightarrow>
                 todayProcessed (stats s1) = Num (d + 2))"
proof -
  let ?p1 = "JObj [(str ''user_id'', JStr (String_num (Num 1))), (str ''times'', JNum (Num 5))]"
  let ?p2 = "JObj [(str ''user_id'', JStr (String_num (Num 2))), (str ''times'', JNum (Num 5))]"
  have s1: "String_num (Num 1) = str ''1''" and s2: "String_num (Num 2) = str ''2''"
    by (simp_all add: digits.simps str_def)
  from ok obtain r1 where r1: "remote E (trace w) (str ''send_like'') ?p1 = Inr r1" by blast
  let ?s1 = "fst (incrementProcessed E s w)"
  let ?w1 = "w\<lparr>trace := trace w @ [Call (str ''send_like'') ?p1, Log LInfo, Sleep 1000],
               clockReads := Suc (clockReads w)\<rparr>"
  have one: "autoLikeOne E (Num 5) (Num 1) s w = (Inr (), ?s1, ?w1)"
    using init r1 by (rule autoLikeOne_resolved)
  have init1: "priv_ctx ?s1 = Some c"
    using init by (simp add: incrementProcessed_ctx)
  from ok obtain r2 where r2: "remote E (trace ?w1) (str ''send_like'') ?p2 = Inr r2" by blast
  let ?s2 = "fst (incrementProcessed E ?s1 ?w1)"
  let ?w2 = "?w1\<lparr>trace := trace ?w1 @ [Call (str ''send_like'') ?p2, Log LInfo, Sleep 1000],
               clockReads := Suc (clockReads ?w1)\<rparr>"
  have two: "autoLikeOne E (Num 5) (Num 2) ?s1 ?w1 = (Inr (), ?s2, ?w2)"
    using init1 r2 by (rule autoLikeOne_resolved)
  have run: "executeAutoLike E s w = (Inr (), ?s2, ?w2)"
    using cfg one two by (simp add: executeAutoLike_def)
  have tr: "trace ?w2 = trace w @
      [Call (str ''send_like'') ?p1, Log LInfo, Sleep 1000,
       Call (str ''send_like'') ?p2, Log LInfo, Sleep 1000]"
    by simp
  have pr: "processed (stats ?s2) = Num (p + 2)"
    using cnt by (simp add: incrementProcessed_processed)
  have td: "todayProcessed (stats ?s2) = Num (d + 2)"
    if "clock E (clockReads w) = lastUpdateDay (stats s) \<and>
        clock E (Suc (clockReads w)) = lastUpdateDay (stats s)"
    using that cnt by (simp add: incrementProcessed_today incrementProcessed_marker)
  from run tr pr td show ?thesis
    unfolding s1 s2 by blast
qed

theorem executeAutoLike_two_targets_witness:
  "fst (executeAutoLike exampleEnv exampleState world0) = Inr ()
   \<and> trace (snd (snd (executeAutoLike exampleEnv exampleState world0))) =
       [Call (str ''send_like'') (JObj [(str ''user_id'', JStr (str ''1'')), (str ''times'', JNum (Num 5))]),
        Log LInfo, Sleep 1000,
        Call (str ''send_like'') (JObj [(str ''user_id'', JStr (str ''2'')), (str ''times'', JNum (Num 5))]),
        Log LInfo, Sleep 1000]
   \<and> processed (stats (fst (snd (executeAutoLike exampleEnv exampleState world0)))) = Num 42
   \<and> todayProcessed (stats (fst (snd (executeAutoLike exampleEnv exampleState world0)))) = Num 9"
proof -
  have init: "priv_ctx exampleState = Some exampleContext"
    and cfg: "autoLikeSomeoneEnabled (config exampleState)"
      "autoLikeUsers (config exampleState) = [Num 1, Num 2]"
      "autoLikeTimes (config exampleState) = Num 5"
    and cnt: "processed (stats exampleState) = Num 40" "todayProcessed (stats exampleState) = Num 7"
    by (simp_all add: example_defs)
  have ok: "\<exists>res. remote exampleEnv tr (str ''send_like'') p = Inr res" for tr p
    by (simp add: example_defs)
  have day: "clock exampleEnv (clockReads world0) = lastUpdateDay (stats exampleState)"
    "clock exampleEnv (Suc (clockReads world0)) = lastUpdateDay (stats exampleState)"
    by (simp_all add: example_defs)
  from executeAutoLike_two_targets [OF init cfg ok cnt, of world0] day show ?thesis
    by (auto simp: world0_def)
qed

section \<open>Properties of the gesture handler\<close>

lemma checkFriend_True:
  assumes "checkFriend E userId s w0 = (True, w1)"
  shows "priv_ctx s \<noteq> None \<and> w1 = emit (Call (str ''get_friend_list'') (JObj [])) w0"
proof (cases "priv_ctx s")
  case None
  with assms show ?thesis by (simp add: checkFriend_def)
next
  case (Some c)
  with assms show ?thesis
    by (auto simp: checkFriend_def callApi_Some split: sum.splits if_splits)
qed

lemma checkVipLimit_fields:
  assumes "checkVipLimit E userId s w = (b, s2, w2)"
  shows "priv_ctx s2 = priv_ctx s \<and> config s2 = config s"
proof -
  have "s2 = s \<or> s2 = fst (snd (getVipLikeCount E userId s
          (snd (callApi E (str ''get_stranger_info'') (JObj [(str ''user_id'', JNum userId)]) s w))))"
    using assms
    by (auto simp: checkVipLimit_def split: prod.splits sum.splits if_splits)
  then show ?thesis
    by (auto simp: getVipLikeCount_state checkVipLikeReset_fields)
qed

lemma pokeBack_Some:
  "priv_ctx s = Some c \<Longrightarrow>
   pokeBack E a p s w =
     (case remote E (trace w) a p of
        Inl msg \<Rightarrow> (Inl (Error msg), emit (Call a p) w)
      | Inr res \<Rightarrow> (Inr (), emit (Log LInfo) (emit (Call a p) w)))"
  by (simp add: pokeBack_def callApi_Some split: sum.split)

lemma reciprocate_Some:
  assumes init: "priv_ctx s = Some c"
    and gesture: "notice_type event = str ''thumb_up'' \<or>
                  (notice_type event = str ''notify'' \<and> sub_type event = Some (str ''poke''))"
    and call: "(a, p) =
       (if notice_type event = str ''thumb_up'' \<or> \<not> truthy (eventGroupId event)
        then (str ''friend_poke'', JObj [(str ''user_id'', JNum (user_id event))])
        else (str ''group_poke'',
              JObj [(str ''group_id'', eventGroupId event), (str ''user_id'', JNum (user_id event))]))"
  shows "reciprocate E event s w =
           (case remote E (trace w) a p of
              Inl msg \<Rightarrow> (s, emit (Log LError) (emit (Call a p) w))
            | Inr res \<Rightarrow>
                snd (incrementVipLikeCount E (user_id event) s
                       (emit (Log LInfo) (emit (Call a p) w))))"
proof -
  have inc: "fst (incrementVipLikeCount E (user_id event) s
      (emit (Log LInfo) (emit (Call a p) w))) = Inr ()"
    using incrementVipLikeCount_Some [OF init, of E "user_id event"] by (metis fst_conv)
  have pb: "(let (r, w1) =
            (if notice_type event = str ''thumb_up''
             then pokeBack E (str ''friend_poke'') (JObj [(str ''user_id'', JNum (user_id event))]) s w
             else if sub_type event = Some (str ''poke'')
             then (if truthy (eventGroupId event)
                   then pokeBack E (str ''group_poke'')
                          (JObj [(str ''group_id'', eventGroupId event),
                                 (str ''user_id'', JNum (user_id event))]) s w
                   else pokeBack E (str ''friend_poke'')
                          (JObj [(str ''user_id'', JNum (user_id event))]) s w)
             else (Inr (), w))
      in f r w1) = (let (r, w1) = pokeBack E a p s w in f r w1)" for f
    using gesture call by (auto simp: str_eq_iff)
  show ?thesis
    unfolding reciprocate_def pb
    using inc by (auto simp: pokeBack_Some [OF init] split: sum.split prod.split)
qed

lemma reciprocate_calls:
  assumes init: "priv_ctx s = Some c"
    and gesture: "notice_type event = str ''thumb_up'' \<or>
                  (notice_type event = str ''notify'' \<and> sub_type event = Some (str ''poke''))"
    and call: "(a, p) =
       (if notice_type event = str ''thumb_up'' \<or> \<not> truthy (eventGroupId event)
        then (str ''friend_poke'', JObj [(str ''user_id'', JNum (user_id event))])
        else (str ''group_poke'',
              JObj [(str ''group_id'', eventGroupId event), (str ''user_id'', JNum (user_id event))]))"
  shows "calls (trace (snd (reciprocate E event s w))) = calls (trace w) @ [(a, p)]"
proof (cases "remote E (trace w) a p")
  case (Inl msg)
  then show ?thesis
    by (simp add: reciprocate_Some [OF init gesture call])
next
  case (Inr res)
  obtain w1 where "snd (snd (incrementVipLikeCount E (user_id event) s
        (emit (Log LInfo) (emit (Call a p) w)))) = w1"
     and "calls (trace w1) = calls (trace (emit (Log LInfo) (emit (Call a p) w)))"
    using incrementVipLikeCount_Some [OF init, of E "user_id event"] by (metis snd_conv)
  with Inr show ?thesis
    by (simp add: reciprocate_Some [OF init gesture call])
qed

text \<open>
  Claim C7. A gesture whose \<open>target_id\<close> differs from the cached identifier of the bot, parsed
  as an integer, makes the handler return at once: no event is added to the trace (so no
  remote call is issued) and the state, with all its counters, is unchanged.
\<close>

theorem handleLike_target_mismatch:
  "target_id event \<noteq> parseInt (selfId s) 0 \<Longrightarrow> handleLike E event s w = (s, w)"
  by (simp add: handleLike_def strictNeq_def strictEq_def Let_def)

theorem handleLike_target_mismatch_witness:
  "handleLike exampleEnv pokeAtOther exampleState world0 = (exampleState, world0)"
proof -
  have "target_id pokeAtOther \<noteq> parseInt (selfId exampleState) 0"
    by (simp add: example_defs pokeAtOther_def pokeFrom200_def parse_eval)
  then show ?thesis by (rule handleLike_target_mismatch)
qed

text \<open>
  Claim C10. While \<open>selfId\<close> is the empty string, \<open>parseInt\<close> of it is \<open>NaN\<close> and the handler
  returns at the target check for every event, also one aimed at the bot: nothing is added
  to the trace and the state is unchanged. A \<open>fetchSelfId\<close> whose call fails leaves \<open>selfId\<close>
  empty.
\<close>

theorem handleLike_empty_selfId:
  assumes "selfId s = []"
  shows "parseInt (selfId s) 0 = NaN
         \<and> handleLike E event s w = (s, w)
         \<and> (\<forall>e w1. callApi E (str ''get_login_info'') (JObj []) s w = (Inl e, w1) \<longrightarrow>
               selfId (fst (snd (fetchSelfId E s w))) = [])"
  using assms
  by (simp add: handleLike_def strictNeq_def strictEq_def Let_def parseInt_def fetchSelfId_def
        split_beta)

theorem handleLike_empty_selfId_witness:
  "selfId anonymousState = []
   \<and> handleLike exampleEnv likeFrom100 anonymousState world0 = (anonymousState, world0)
   \<and> selfId (fst (snd (fetchSelfId (rejectingEnv (str ''timeout'')) anonymousState world0))) = []"
proof -
  have e: "selfId anonymousState = []"
    by (simp add: anonymousState_def)
  have r: "callApi (rejectingEnv (str ''timeout'')) (str ''get_login_info'') (JObj []) anonymousState
             world0 = (Inl (Error (str ''timeout'')), emit (Call (str ''get_login_info'') (JObj [])) world0)"
    by (simp add: anonymousState_def rejectingEnv_def example_defs callApi_def ctx_def)
  from handleLike_empty_selfId [OF e, of exampleEnv likeFrom100 world0]
    handleLike_empty_selfId [OF e, of "rejectingEnv (str ''timeout'')" likeFrom100 world0] r e
  show ?thesis
    by blast
qed

text \<open>
  Claim C6. When the acting user is in the blacklist, the handler stops before the
  friendship check: the remote calls in the trace are those that were there before (no
  \<open>get_friend_list\<close>, no poke), and the state, with all its counters, is unchanged.
\<close>

theorem handleLike_blacklisted:
  assumes "user_id event \<in> set (blacklist (config s))"
  shows "fst (handleLike E event s w) = s \<and>
         calls (trace (snd (handleLike E event s w))) = calls (trace w)"
  using assms by (simp add: handleLike_def Let_def)

theorem handleLike_blacklisted_witness:
  "fst (handleLike exampleEnv pokeFrom400 exampleState world0) = exampleState
   \<and> calls (trace (snd (handleLike exampleEnv pokeFrom400 exampleState world0))) = []"
proof -
  have "user_id pokeFrom400 \<in> set (blacklist (config exampleState))"
    by (simp add: example_defs pokeFrom400_def pokeFrom200_def)
  from handleLike_blacklisted [OF this, of exampleEnv world0] show ?thesis
    by (simp add: world0_def)
qed

text \<open>
  Claim C1. Let a gesture pass the gates up to the friendship check, let the
  \<open>get_stranger_info\<close> call resolve with a value that marks the user as a member, and let
  \<open>n\<close> be the user's counter as \<open>getVipLikeCount\<close> returns it (after its day rollover), \<open>l\<close> the
  configured \<open>vipLikeLimit\<close>. If \<open>n\<close> is at least \<open>l\<close>, the handler logs and stops: the only remote
  calls are the two lookups, and the state is the one the counter read left (statistics and
  the user's counter as they were). If \<open>n = l - 1\<close>, the handler goes on to the reciprocation,
  and a poke call follows the two lookups.
\<close>

theorem handleLike_vip_limit:
  assumes gesture: "notice_type event = str ''thumb_up'' \<or>
                    (notice_type event = str ''notify'' \<and> sub_type event = Some (str ''poke''))"
    and target: "strictEq (target_id event) (parseInt (selfId s) 0)"
    and enabled: "autoLikeEnabled (config s)"
    and listed: "user_id event \<notin> set (blacklist (config s))"
    and friend: "checkFriend E (user_id event) s (emit (Log LInfo) w) = (True, w1)"
    and lookup: "callApi E (str ''get_stranger_info'') (JObj [(str ''user_id'', JNum (user_id event))])
                   s w1 = (Inr userInfo, w2)"
    and vip: "isVip userInfo = Inr True"
    and counter: "getVipLikeCount E (user_id event) s w2 = (Inr (Num n), s3, w3)"
    and limit: "vipLikeLimit (config s) = Num l"
  shows "(l \<le> n \<longrightarrow>
           handleLike E event s w = (s3, emit (Log LInfo) w3)
           \<and> calls (trace (snd (handleLike E event s w))) =
               calls (trace w) @
                 [(str ''get_friend_list'', JObj []),
                  (str ''get_stranger_info'', JObj [(str ''user_id'', JNum (user_id event))])]
           \<and> s3 = fst (snd (checkVipLikeReset E s w2))
           \<and> stats s3 = stats s
           \<and> num_or0 (vipLikeCounts s3 (user_id event)) = Num n)
       \<and> (n = l - 1 \<longrightarrow>
           handleLike E event s w = reciprocate E event s3 w3
           \<and> (\<exists>a p. (a = str ''friend_poke'' \<or> a = str ''group_poke'')
                 \<and> calls (trace (snd (handleLike E event s w))) =
                     calls (trace w) @
                       [(str ''get_friend_list'', JObj []),
                        (str ''get_stranger_info'', JObj [(str ''user_id'', JNum (user_id event))]),
                        (a, p)]))"
proof -
  from checkFriend_True [OF friend] obtain c where init: "priv_ctx s = Some c"
    and w1: "w1 = emit (Call (str ''get_friend_list'') (JObj [])) (emit (Log LInfo) w)"
    by auto
  from lookup init have w2: "w2 = emit (Call (str ''get_stranger_info'')
      (JObj [(str ''user_id'', JNum (user_id event))])) w1"
    by (auto simp: callApi_Some split: sum.splits)
  from getVipLikeCount_Some [OF init, of E "user_id event" w2] counter
  have s3: "s3 = fst (snd (checkVipLikeReset E s w2))"
    and cnt: "num_or0 (vipLikeCounts s3 (user_id event)) = Num n"
    and w3: "calls (trace w3) = calls (trace w2)"
    by auto
  have cfg: "config s3 = config s" and st: "stats s3 = stats s" and init3: "priv_ctx s3 = Some c"
    using init by (simp_all add: s3 checkVipLikeReset_fields)
  have vipcheck: "checkVipLimit E (user_id event) s w1 =
      (if num_ge (Num n) (Num l) then (False, s3, emit (Log LInfo) w3) else (True, s3, w3))"
    using lookup vip counter limit cfg by (simp add: checkVipLimit_def)
  have run: "handleLike E event s w =
      (if l \<le> n then (s3, emit (Log LInfo) w3) else reciprocate E event s3 w3)"
    using gesture target enabled listed friend vipcheck
    by (auto simp: handleLike_def Let_def strictNeq_def)
  have base: "calls (trace w3) = calls (trace w) @
                 [(str ''get_friend_list'', JObj []),
                  (str ''get_stranger_info'', JObj [(str ''user_id'', JNum (user_id event))])]"
    by (simp add: w3 w2 w1)
  show ?thesis
  proof (intro conjI impI)
    assume "l \<le> n"
    with run show "handleLike E event s w = (s3, emit (Log LInfo) w3)" by simp
    with base show "calls (trace (snd (handleLike E event s w))) =
               calls (trace w) @
                 [(str ''get_friend_list'', JObj []),
                  (str ''get_stranger_info'', JObj [(str ''user_id'', JNum (user_id event))])]"
      by simp
  next
    show "s3 = fst (snd (checkVipLikeReset E s w2))" by (rule s3)
    show "stats s3 = stats s" by (rule st)
    show "num_or0 (vipLikeCounts s3 (user_id event)) = Num n" by (rule cnt)
  next
    assume n: "n = l - 1"
    with run show r: "handleLike E event s w = reciprocate E event s3 w3" by simp
    obtain a p where call: "(a, p) =
       (if notice_type event = str ''thumb_up'' \<or> \<not> truthy (eventGroupId event)
        then (str ''friend_poke'', JObj [(str ''user_id'', JNum (user_id event))])
        else (str ''group_poke'',
              JObj [(str ''group_id'', eventGroupId event), (str ''user_id'', JNum (user_id event))]))"
      by (metis surj_pair)
    then have "a = str ''friend_poke'' \<or> a = str ''group_poke''"
      by (auto split: if_splits)
    moreover have "calls (trace (snd (handleLike E event s w))) = calls (trace w3) @ [(a, p)]"
      unfolding r by (rule reciprocate_calls [OF init3 gesture call])
    ultimately show "\<exists>a p. (a = str ''friend_poke'' \<or> a = str ''group_poke'')
                 \<and> calls (trace (snd (handleLike E event s w))) =
                     calls (trace w) @
                       [(str ''get_friend_list'', JObj []),
                        (str ''get_stranger_info'', JObj [(str ''user_id'', JNum (user_id event))]),
                        (a, p)]"
      using base by auto
  qed
qed

theorem handleLike_vip_limit_witness:
  "handleLike exampleEnv likeFrom100 exampleState world0 =
     (exampleState,
      \<lparr>trace = [Log LInfo, Call (str ''get_friend_list'') (JObj []),
                Call (str ''get_stranger_info'') (JObj [(str ''user_id'', JNum (Num 100))]),
                Log LInfo],
       clockReads = 1\<rparr>)
   \<and> handleLike exampleEnv pokeFrom200 exampleState world0 =
       reciprocate exampleEnv pokeFrom200 exampleState
         \<lparr>trace = [Log LInfo, Call (str ''get_friend_list'') (JObj []),
                   Call (str ''get_stranger_info'') (JObj [(str ''user_id'', JNum (Num 200))])],
          clockReads = 1\<rparr>"
proof -
  let ?w1 = "\<lparr>trace = [Log LInfo, Call (str ''get_friend_list'') (JObj [])], clockReads = 0\<rparr>"
  let ?info = "JObj [(str ''data'', JObj [(str ''vip'', JBool True)])]"
  have self: "parseInt (selfId exampleState) 0 = Num 10001"
    by (simp add: example_defs parse_eval)
  have limit: "vipLikeLimit (config exampleState) = Num 3"
    and enabled: "autoLikeEnabled (config exampleState)"
    by (simp_all add: example_defs)
  have vip: "isVip ?info = Inr True"
    by (simp add: isVip_def getProp_def)
  let ?v1 = "\<lparr>trace = [Log LInfo, Call (str ''get_friend_list'') (JObj []),
                Call (str ''get_stranger_info'') (JObj [(str ''user_id'', JNum (Num 100))])],
              clockReads = 0\<rparr>"
  have g1: "notice_type likeFrom100 = str ''thumb_up'' \<or>
            (notice_type likeFrom100 = str ''notify'' \<and> sub_type likeFrom100 = Some (str ''poke''))"
    and t1: "strictEq (target_id likeFrom100) (parseInt (selfId exampleState) 0)"
    and b1: "user_id likeFrom100 \<notin> set (blacklist (config exampleState))"
    unfolding self by (simp_all add: example_defs likeFrom100_def pokeFrom200_def strictEq_def)
  have f1: "checkFriend exampleEnv (user_id likeFrom100) exampleState (emit (Log LInfo) world0) =
              (True, ?w1)"
    by (simp add: example_defs likeFrom100_def pokeFrom200_def handler_eval)
  have l1: "callApi exampleEnv (str ''get_stranger_info'')
              (JObj [(str ''user_id'', JNum (user_id likeFrom100))]) exampleState ?w1 =
              (Inr ?info, ?v1)"
    by (simp add: example_defs likeFrom100_def pokeFrom200_def handler_eval)
  have c1: "getVipLikeCount exampleEnv (user_id likeFrom100) exampleState ?v1 =
              (Inr (Num 3), exampleState, ?v1\<lparr>clockReads := 1\<rparr>)"
    by (simp add: example_defs likeFrom100_def pokeFrom200_def handler_eval)
  let ?v2 = "\<lparr>trace = [Log LInfo, Call (str ''get_friend_list'') (JObj []),
                Call (str ''get_stranger_info'') (JObj [(str ''user_id'', JNum (Num 200))])],
              clockReads = 0\<rparr>"
  have g2: "notice_type pokeFrom200 = str ''thumb_up'' \<or>
            (notice_type pokeFrom200 = str ''notify'' \<and> sub_type pokeFrom200 = Some (str ''poke''))"
    and t2: "strictEq (target_id pokeFrom200) (parseInt (selfId exampleState) 0)"
    and b2: "user_id pokeFrom200 \<notin> set (blacklist (config exampleState))"
    unfolding self by (simp_all add: example_defs likeFrom100_def pokeFrom200_def strictEq_def)
  have f2: "checkFriend exampleEnv (user_id pokeFrom200) exampleState (emit (Log LInfo) world0) =
              (True, ?w1)"
    by (simp add: example_defs likeFrom100_def pokeFrom200_def handler_eval)
  have l2: "callApi exampleEnv (str ''get_stranger_info'')
              (JObj [(str ''user_id'', JNum (user_id pokeFrom200))]) exampleState ?w1 =
              (Inr ?info, ?v2)"
    by (simp add: example_defs likeFrom100_def pokeFrom200_def handler_eval)
  have c2: "getVipLikeCount exampleEnv (user_id pokeFrom200) exampleState ?v2 =
              (Inr (Num 2), exampleState, ?v2\<lparr>clockReads := 1\<rparr>)"
    by (simp add: example_defs likeFrom100_def pokeFrom200_def handler_eval)
  from handleLike_vip_limit [OF g1 t1 enabled b1 f1 l1 vip c1 limit]
    handleLike_vip_limit [OF g2 t2 enabled b2 f2 l2 vip c2 limit]
  show ?thesis
    by (simp add: emit_def)
qed

text \<open>
  Claim C2. Let a gesture pass all gates. Then the handler issues exactly one more remote
  call: for a thumb-up a \<open>friend_poke\<close> with the user's \<open>user_id\<close>; for a poke that carries a
  group id (\<open>event.group_id\<close> is truthy) a \<open>group_poke\<close> with that \<open>group_id\<close> and the \<open>user_id\<close>;
  for a poke that carries none a \<open>friend_poke\<close>. When that call resolves, the user's counter
  becomes one more than a read at that moment would have returned; when it rejects, the
  state is unchanged.
\<close>

theorem handleLike_reciprocates:
  assumes gesture: "notice_type event = str ''thumb_up'' \<or>
                    (notice_type event = str ''notify'' \<and> sub_type event = Some (str ''poke''))"
    and target: "strictEq (target_id event) (parseInt (selfId s) 0)"
    and enabled: "autoLikeEnabled (config s)"
    and listed: "user_id event \<notin> set (blacklist (config s))"
    and friend: "checkFriend E (user_id event) s (emit (Log LInfo) w) = (True, w1)"
    and underLimit: "checkVipLimit E (user_id event) s w1 = (True, s2, w2)"
  shows "\<exists>a p.
           (notice_type event = str ''thumb_up'' \<longrightarrow>
              (a, p) = (str ''friend_poke'', JObj [(str ''user_id'', JNum (user_id event))]))
         \<and> (notice_type event \<noteq> str ''thumb_up'' \<and> truthy (eventGroupId event) \<longrightarrow>
              (a, p) = (str ''group_poke'',
                        JObj [(str ''group_id'', eventGroupId event),
                              (str ''user_id'', JNum (user_id event))]))
         \<and> (notice_type event \<noteq> str ''thumb_up'' \<and> \<not> truthy (eventGroupId event) \<longrightarrow>
              (a, p) = (str ''friend_poke'', JObj [(str ''user_id'', JNum (user_id event))]))
         \<and> calls (trace (snd (handleLike E event s w))) = calls (trace w2) @ [(a, p)]
         \<and> (\<forall>res k. remote E (trace w2) a p = Inr res
                    \<and> fst (getVipLikeCount E (user_id event) s2 w2) = Inr k \<longrightarrow>
               vipLikeCounts (fst (handleLike E event s w)) (user_id event) = Some (num_inc k))
         \<and> (\<forall>msg. remote E (trace w2) a p = Inl msg \<longrightarrow> fst (handleLike E event s w) = s2)"
proof -
  from checkFriend_True [OF friend] obtain c where init: "priv_ctx s = Some c" by auto
  with checkVipLimit_fields [OF underLimit] have init2: "priv_ctx s2 = Some c" by simp
  have run: "handleLike E event s w = reciprocate E event s2 w2"
    using gesture target enabled listed friend underLimit
    by (auto simp: handleLike_def Let_def strictNeq_def)
  obtain a p where call: "(a, p) =
       (if notice_type event = str ''thumb_up'' \<or> \<not> truthy (eventGroupId event)
        then (str ''friend_poke'', JObj [(str ''user_id'', JNum (user_id event))])
        else (str ''group_poke'',
              JObj [(str ''group_id'', eventGroupId event), (str ''user_id'', JNum (user_id event))]))"
    by (metis surj_pair)
  note rec = reciprocate_Some [OF init2 gesture call, of E w2]
  let ?w = "emit (Log LInfo) (emit (Call a p) w2)"
  have cl: "calls (trace (snd (handleLike E event s w))) = calls (trace w2) @ [(a, p)]"
    unfolding run by (rule reciprocate_calls [OF init2 gesture call])
  have ok: "vipLikeCounts (fst (handleLike E event s w)) (user_id event) = Some (num_inc k)"
    if r: "remote E (trace w2) a p = Inr res"
      and k: "fst (getVipLikeCount E (user_id event) s2 w2) = Inr k" for res k
  proof -
    have same: "fst (snd (checkVipLikeReset E s2 ?w)) = fst (snd (checkVipLikeReset E s2 w2))"
      by (rule checkVipLikeReset_state) simp
    from getVipLikeCount_Some [OF init2, of E "user_id event" w2] k
    have kv: "k = num_or0 (vipLikeCounts (fst (snd (checkVipLikeReset E s2 w2))) (user_id event))"
      by auto
    from incrementVipLikeCount_Some [OF init2, of E "user_id event" ?w]
    have "vipLikeCounts (fst (snd (incrementVipLikeCount E (user_id event) s2 ?w))) (user_id event)
            = Some (num_inc k)"
      by (auto simp: kv same)
    with r show ?thesis by (simp add: run rec)
  qed
  have fail: "fst (handleLike E event s w) = s2" if "remote E (trace w2) a p = Inl msg" for msg
    using that by (simp add: run rec)
  from call cl ok fail show ?thesis
    by (intro exI [of _ a] exI [of _ p]) (auto split: if_splits)
qed

theorem handleLike_reciprocates_witness:
  "calls (trace (snd (handleLike exampleEnv pokeFrom200 exampleState world0))) =
     [(str ''get_friend_list'', JObj []),
      (str ''get_stranger_info'', JObj [(str ''user_id'', JNum (Num 200))]),
      (str ''group_poke'', JObj [(str ''group_id'', JNum (Num 555)), (str ''user_id'', JNum (Num 200))])]
   \<and> vipLikeCounts (fst (handleLike exampleEnv pokeFrom200 exampleState world0)) (Num 200) =
       Some (Num 3)"
proof -
  let ?w1 = "\<lparr>trace = [Log LInfo, Call (str ''get_friend_list'') (JObj [])], clockReads = 0\<rparr>"
  let ?w2 = "\<lparr>trace = [Log LInfo, Call (str ''get_friend_list'') (JObj []),
                Call (str ''get_stranger_info'') (JObj [(str ''user_id'', JNum (Num 200))])],
              clockReads = 1\<rparr>"
  have self: "parseInt (selfId exampleState) 0 = Num 10001"
    by (simp add: example_defs parse_eval)
  have enabled: "autoLikeEnabled (config exampleState)"
    by (simp add: example_defs)
  have g: "notice_type pokeFrom200 = str ''thumb_up'' \<or>
            (notice_type pokeFrom200 = str ''notify'' \<and> sub_type pokeFrom200 = Some (str ''poke''))"
    and t: "strictEq (target_id pokeFrom200) (parseInt (selfId exampleState) 0)"
    and b: "user_id pokeFrom200 \<notin> set (blacklist (config exampleState))"
    unfolding self by (simp_all add: example_defs pokeFrom200_def strictEq_def)
  have f: "checkFriend exampleEnv (user_id pokeFrom200) exampleState (emit (Log LInfo) world0) =
              (True, ?w1)"
    by (simp add: example_defs pokeFrom200_def handler_eval)
  have v: "checkVipLimit exampleEnv (user_id pokeFrom200) exampleState ?w1 =
              (True, exampleState, ?w2)"
    by (simp add: example_defs pokeFrom200_def handler_eval)
  have shape: "notice_type pokeFrom200 \<noteq> str ''thumb_up''" "truthy (eventGroupId pokeFrom200)"
    "eventGroupId pokeFrom200 = JNum (Num 555)" "user_id pokeFrom200 = Num 200"
    by (simp_all add: pokeFrom200_def eventGroupId_def)
  have r: "remote exampleEnv (trace ?w2) (str ''group_poke'')
             (JObj [(str ''group_id'', JNum (Num 555)), (str ''user_id'', JNum (Num 200))]) = Inr JNull"
    by (simp add: example_defs)
  have k: "fst (getVipLikeCount exampleEnv (Num 200) exampleState ?w2) = Inr (Num 2)"
    by (simp add: example_defs pokeFrom200_def handler_eval)
  from handleLike_reciprocates [OF g t enabled b f v] shape r k show ?thesis
    by auto
qed

end
